theory Spec2Isabelle
  imports Complex_Main
begin

section \<open>Scalars, vectors and failures\<close>

text \<open>
  The library's scalar type \<open>decimal\<close> is modelled as an exact ordered field: every
  coordinate is a finite number and arithmetic does not round. An \<open>assert\<close> of the
  source is a branch of the model that returns \<open>Inl AssertionFailure\<close>.
\<close>

type_synonym decimal = real

datatype error = AssertionFailure

text \<open>
  \<open>Vector3.h\<close> is not among the sources. The operations below follow \<open>Vector2.h\<close>,
  which is, component by component, with the third component added.
\<close>

record Vector3 =
  x :: decimal
  y :: decimal
  z :: decimal

definition Vector3_zero :: Vector3 where
  "Vector3_zero = \<lparr>x = 0, y = 0, z = 0\<rparr>"

definition dot :: "Vector3 \<Rightarrow> Vector3 \<Rightarrow> decimal" where
  "dot v w = x v * x w + y v * y w + z v * z w"

definition lengthSquare :: "Vector3 \<Rightarrow> decimal" where
  "lengthSquare v = x v * x v + y v * y v + z v * z v"

definition vec_add :: "Vector3 \<Rightarrow> Vector3 \<Rightarrow> Vector3" where
  "vec_add v w = \<lparr>x = x v + x w, y = y v + y w, z = z v + z w\<rparr>"

definition vec_sub :: "Vector3 \<Rightarrow> Vector3 \<Rightarrow> Vector3" where
  "vec_sub v w = \<lparr>x = x v - x w, y = y v - y w, z = z v - z w\<rparr>"

definition vec_scale :: "decimal \<Rightarrow> Vector3 \<Rightarrow> Vector3" where
  "vec_scale number v = \<lparr>x = number * x v, y = number * y v, z = number * z v\<rparr>"

definition vec_mul :: "Vector3 \<Rightarrow> Vector3 \<Rightarrow> Vector3" where
  "vec_mul v w = \<lparr>x = x v * x w, y = y v * y w, z = z v * z w\<rparr>"

definition Vector3_min :: "Vector3 \<Rightarrow> Vector3 \<Rightarrow> Vector3" where
  "Vector3_min v w = \<lparr>x = min (x v) (x w), y = min (y v) (y w), z = min (z v) (z w)\<rparr>"

definition Vector3_max :: "Vector3 \<Rightarrow> Vector3 \<Rightarrow> Vector3" where
  "Vector3_max v w = \<lparr>x = max (x v) (x w), y = max (y v) (y w), z = max (z v) (z w)\<rparr>"

section \<open>HalfEdgeStructure\<close>

text \<open>
  The three structs of \<open>HalfEdgeStructure.h\<close>. The constructors \<open>Face(vertices)\<close> and
  \<open>Vertex(vertexCoordsIndex)\<close> leave \<open>edgeIndex\<close> without a value: the field is an
  option, \<open>None\<close> until something stores an index. The field \<open>edgeIndex\<close> of \<open>Vertex\<close>
  is named \<open>vertexEdgeIndex\<close> here, the one of \<open>Face\<close> keeps its name.
\<close>

record Edge =
  vertexIndex :: nat
  twinEdgeIndex :: nat
  faceIndex :: nat
  nextEdgeIndex :: nat

record Face =
  edgeIndex :: "nat option"
  faceVertices :: "nat list"

record Vertex =
  vertexPointIndex :: nat
  vertexEdgeIndex :: "nat option"

record HalfEdgeStructure =
  mFaces :: "Face list"
  mVertices :: "Vertex list"
  mEdges :: "Edge list"

definition addVertex :: "HalfEdgeStructure \<Rightarrow> nat \<Rightarrow> HalfEdgeStructure \<times> nat" where
  "addVertex hs pointIndex =
     (let vertex = \<lparr>vertexPointIndex = pointIndex, vertexEdgeIndex = None\<rparr>;
          hs' = hs\<lparr>mVertices := mVertices hs @ [vertex]\<rparr>
      in (hs', length (mVertices hs') - 1))"

definition addFace :: "HalfEdgeStructure \<Rightarrow> nat list \<Rightarrow> HalfEdgeStructure" where
  "addFace hs vertices =
     (let face = \<lparr>edgeIndex = None, faceVertices = vertices\<rparr>
      in hs\<lparr>mFaces := mFaces hs @ [face]\<rparr>)"

definition getNbFaces :: "HalfEdgeStructure \<Rightarrow> nat" where
  "getNbFaces hs = length (mFaces hs)"

definition getNbHalfEdges :: "HalfEdgeStructure \<Rightarrow> nat" where
  "getNbHalfEdges hs = length (mEdges hs)"

definition getNbVertices :: "HalfEdgeStructure \<Rightarrow> nat" where
  "getNbVertices hs = length (mVertices hs)"

definition getFace :: "HalfEdgeStructure \<Rightarrow> nat \<Rightarrow> error + Face" where
  "getFace hs index =
     (if index < length (mFaces hs) then Inr (mFaces hs ! index) else Inl AssertionFailure)"

definition getHalfEdge :: "HalfEdgeStructure \<Rightarrow> nat \<Rightarrow> error + Edge" where
  "getHalfEdge hs index =
     (if index < length (mEdges hs) then Inr (mEdges hs ! index) else Inl AssertionFailure)"

definition getVertex :: "HalfEdgeStructure \<Rightarrow> nat \<Rightarrow> error + Vertex" where
  "getVertex hs index =
     (if index < length (mVertices hs) then Inr (mVertices hs ! index) else Inl AssertionFailure)"

section \<open>Finalization\<close>

text \<open>
  Modelled from the spec: \<open>HalfEdgeStructure::init\<close>, the finalization. The header
  declares it (\<open>void init()\<close>) and its body is not among the sources. The spec has it
  synthesize, for each face, one directed half-edge per consecutive vertex pair, wrapping
  around; set the next of each edge to the following edge of the same face; pair every
  edge with the one edge of another face that carries the reversed vertex pair; and fail
  with a \<open>ManifoldError\<close> when an edge has no such twin or more than one. A face with
  fewer than three vertices and a vertex index out of range are the other two
  construction errors of the spec.
\<close>

datatype ConstructionError = ManifoldError | FaceTooSmall | VertexIndexOutOfRange

text \<open>
  Modelled from the spec: the directed edges of face \<open>f\<close>, as \<open>(f, k, a, b)\<close> for the
  \<open>k\<close>-th consecutive vertex pair \<open>(a, b)\<close> of the face, the last vertex paired with the
  first; and the directed edges of all faces, face after face. The index of a half-edge
  is its position in this list.
\<close>

definition faceEdges :: "nat \<Rightarrow> nat list \<Rightarrow> (nat \<times> nat \<times> nat \<times> nat) list" where
  "faceEdges f vs = map (\<lambda>k. (f, k, vs ! k, vs ! ((k + 1) mod length vs))) [0 ..< length vs]"

definition directedEdges :: "Face list \<Rightarrow> (nat \<times> nat \<times> nat \<times> nat) list" where
  "directedEdges faces =
     concat (map (\<lambda>f. faceEdges f (faceVertices (faces ! f))) [0 ..< length faces])"

text \<open>
  Modelled from the spec: the candidate twins of an edge \<open>(a, b)\<close> of face \<open>f\<close> are the
  edges of the other faces that carry \<open>(b, a)\<close>.
\<close>

definition twinCandidates ::
  "(nat \<times> nat \<times> nat \<times> nat) list \<Rightarrow> nat \<times> nat \<times> nat \<times> nat \<Rightarrow> nat list" where
  "twinCandidates es e =
     (case e of (f, k, a, b) \<Rightarrow>
        filter (\<lambda>j. case es ! j of (g, k', c, d) \<Rightarrow> g \<noteq> f \<and> c = b \<and> d = a) [0 ..< length es])"

text \<open>
  Modelled from the spec: the index of the first half-edge of face \<open>f\<close>, and the record
  of one half-edge: its origin, its twin when there is exactly one candidate, its face
  and the following edge of the face.
\<close>

definition faceStart :: "Face list \<Rightarrow> nat \<Rightarrow> nat" where
  "faceStart faces f = sum_list (map (\<lambda>face. length (faceVertices face)) (take f faces))"

definition makeEdge ::
  "Face list \<Rightarrow> (nat \<times> nat \<times> nat \<times> nat) list \<Rightarrow> nat \<times> nat \<times> nat \<times> nat \<Rightarrow>
   ConstructionError + Edge" where
  "makeEdge faces es e =
     (case e of (f, k, a, b) \<Rightarrow>
        (case twinCandidates es e of
           [j] \<Rightarrow> Inr \<lparr>vertexIndex = a, twinEdgeIndex = j, faceIndex = f,
                      nextEdgeIndex = faceStart faces f
                        + (k + 1) mod length (faceVertices (faces ! f))\<rparr>
         | _ \<Rightarrow> Inl ManifoldError))"

text \<open>The results of a list of steps, or the first error among them.\<close>

fun collect :: "(ConstructionError + 'a) list \<Rightarrow> ConstructionError + 'a list" where
  "collect [] = Inr []"
| "collect (r # rs) =
     (case r of
        Inl e \<Rightarrow> Inl e
      | Inr v \<Rightarrow> (case collect rs of Inl e \<Rightarrow> Inl e | Inr vs \<Rightarrow> Inr (v # vs)))"

text \<open>
  Modelled from the spec: \<open>finalize\<close> reports a construction error and yields no
  structure, or yields the structure with its half-edges, every face with its first
  half-edge and every vertex with the first half-edge that leaves it. The structure it
  is given is not changed by a failure.
\<close>

definition finalize :: "HalfEdgeStructure \<Rightarrow> ConstructionError + HalfEdgeStructure" where
  "finalize hs =
     (let faces = mFaces hs; es = directedEdges faces in
      if list_ex (\<lambda>face. length (faceVertices face) < 3) faces then Inl FaceTooSmall
      else if list_ex (\<lambda>face. list_ex (\<lambda>v. \<not> v < length (mVertices hs)) (faceVertices face)) faces
      then Inl VertexIndexOutOfRange
      else (case collect (map (makeEdge faces es) es) of
              Inl e \<Rightarrow> Inl e
            | Inr edges \<Rightarrow>
                Inr \<lparr>mFaces = map (\<lambda>f. (faces ! f)\<lparr>edgeIndex := Some (faceStart faces f)\<rparr>)
                               [0 ..< length faces],
                     mVertices = map (\<lambda>v. (mVertices hs ! v)\<lparr>vertexEdgeIndex :=
                                   List.find (\<lambda>j. vertexIndex (edges ! j) = v) [0 ..< length edges]\<rparr>)
                                   [0 ..< length (mVertices hs)],
                     mEdges = edges\<rparr>))"

text \<open>
  The build sequence: \<open>addVertex\<close> for the points \<open>0\<close> to \<open>nbPoints - 1\<close>, then \<open>addFace\<close>
  for each face, on a structure that starts empty.
\<close>

definition emptyStructure :: HalfEdgeStructure where
  "emptyStructure = \<lparr>mFaces = [], mVertices = [], mEdges = []\<rparr>"

definition buildStructure :: "nat \<Rightarrow> nat list list \<Rightarrow> HalfEdgeStructure" where
  "buildStructure nbPoints faces =
     foldl addFace (foldl (\<lambda>hs p. fst (addVertex hs p)) emptyStructure [0 ..< nbPoints]) faces"

section \<open>ConvexMesh and ConvexMeshShape\<close>

text \<open>
  Modelled from the spec: the class \<open>ConvexMesh\<close>, whose header is not among the
  sources. It holds the half-edge structure, one point per vertex index and one normal
  per face index; its accessors \<open>getVertex\<close> and \<open>getFaceNormal\<close> are index lookups
  whose out-of-range index is a contract violation, and its number of faces is the one
  of the half-edge structure.
\<close>

record ConvexMesh =
  mHalfEdgeStructure :: HalfEdgeStructure
  mVerticesCoords :: "Vector3 list"
  mFacesNormals :: "Vector3 list"

definition ConvexMesh_getNbVertices :: "ConvexMesh \<Rightarrow> nat" where
  "ConvexMesh_getNbVertices mesh = length (mVerticesCoords mesh)"

definition ConvexMesh_getNbFaces :: "ConvexMesh \<Rightarrow> nat" where
  "ConvexMesh_getNbFaces mesh = getNbFaces (mHalfEdgeStructure mesh)"

definition ConvexMesh_getVertex :: "ConvexMesh \<Rightarrow> nat \<Rightarrow> error + Vector3" where
  "ConvexMesh_getVertex mesh index =
     (if index < length (mVerticesCoords mesh) then Inr (mVerticesCoords mesh ! index)
      else Inl AssertionFailure)"

definition ConvexMesh_getFaceNormal :: "ConvexMesh \<Rightarrow> nat \<Rightarrow> error + Vector3" where
  "ConvexMesh_getFaceNormal mesh index =
     (if index < length (mFacesNormals mesh) then Inr (mFacesNormals mesh ! index)
      else Inl AssertionFailure)"

record ConvexMeshShape =
  mConvexMesh :: ConvexMesh
  mScale :: Vector3

subsection \<open>getLocalSupportPointWithoutMargin\<close>

text \<open>
  The loop over the vertex indices, with the pair \<open>(maxDotProduct, indexMaxDotProduct)\<close>
  as its state. The constant \<open>DECIMAL_SMALLEST\<close> is declared in a header that is not
  among the sources: it is the first argument of the function.
\<close>

fun supportLoop ::
  "ConvexMesh \<Rightarrow> Vector3 \<Rightarrow> nat list \<Rightarrow> decimal \<times> nat \<Rightarrow> error + decimal \<times> nat" where
  "supportLoop mesh direction [] (maxDotProduct, indexMaxDotProduct) =
     Inr (maxDotProduct, indexMaxDotProduct)"
| "supportLoop mesh direction (i # rest) (maxDotProduct, indexMaxDotProduct) =
     (case ConvexMesh_getVertex mesh i of
        Inl e \<Rightarrow> Inl e
      | Inr v \<Rightarrow>
          (let dotProduct = dot direction v in
           if dotProduct > maxDotProduct
           then supportLoop mesh direction rest (dotProduct, i)
           else supportLoop mesh direction rest (maxDotProduct, indexMaxDotProduct)))"

definition getLocalSupportPointWithoutMargin ::
  "decimal \<Rightarrow> ConvexMeshShape \<Rightarrow> Vector3 \<Rightarrow> error + Vector3" where
  "getLocalSupportPointWithoutMargin DECIMAL_SMALLEST shape direction =
     (case supportLoop (mConvexMesh shape) direction
             [0 ..< ConvexMesh_getNbVertices (mConvexMesh shape)] (DECIMAL_SMALLEST, 0) of
        Inl e \<Rightarrow> Inl e
      | Inr (maxDotProduct, indexMaxDotProduct) \<Rightarrow>
          if maxDotProduct \<ge> 0
          then (case ConvexMesh_getVertex (mConvexMesh shape) indexMaxDotProduct of
                  Inl e \<Rightarrow> Inl e
                | Inr v \<Rightarrow> Inr (vec_mul v (mScale shape)))
          else Inl AssertionFailure)"

subsection \<open>The plane of a face\<close>

text \<open>
  \<open>Array.h\<close> is not among the sources: \<open>face.faceVertices[0]\<close> is modelled as a checked
  lookup, like the accessors of the half-edge structure. \<open>faceNormalAndPoint\<close> is the
  common head of the loop bodies of \<open>raycast\<close> and \<open>testPointInside\<close>: the face, its
  normal, its first vertex and the point of that vertex, looked up in this order.
\<close>

definition Array_at :: "'a list \<Rightarrow> nat \<Rightarrow> error + 'a" where
  "Array_at xs index = (if index < length xs then Inr (xs ! index) else Inl AssertionFailure)"

definition faceNormalAndPoint :: "ConvexMesh \<Rightarrow> nat \<Rightarrow> error + Vector3 \<times> Vector3" where
  "faceNormalAndPoint mesh f =
     (case getFace (mHalfEdgeStructure mesh) f of
        Inl e \<Rightarrow> Inl e
      | Inr face \<Rightarrow>
     (case ConvexMesh_getFaceNormal mesh f of
        Inl e \<Rightarrow> Inl e
      | Inr faceNormal \<Rightarrow>
     (case Array_at (faceVertices face) 0 of
        Inl e \<Rightarrow> Inl e
      | Inr v0 \<Rightarrow>
     (case getVertex (mHalfEdgeStructure mesh) v0 of
        Inl e \<Rightarrow> Inl e
      | Inr faceVertex \<Rightarrow>
     (case ConvexMesh_getVertex mesh (vertexPointIndex faceVertex) of
        Inl e \<Rightarrow> Inl e
      | Inr facePoint \<Rightarrow> Inr (faceNormal, facePoint))))))"

text \<open>
  The index consistency of a mesh built over a finalized half-edge structure: one normal
  per face, every face has a vertex, every vertex index of a face is an index of the
  vertex array, and every vertex refers to a point of the coordinate array.
\<close>

definition wellFormedMesh :: "ConvexMesh \<Rightarrow> bool" where
  "wellFormedMesh mesh =
     (length (mFacesNormals mesh) = length (mFaces (mHalfEdgeStructure mesh)) \<and>
      list_all (\<lambda>face. faceVertices face \<noteq> [] \<and>
                  list_all (\<lambda>v. v < length (mVertices (mHalfEdgeStructure mesh)))
                    (faceVertices face))
        (mFaces (mHalfEdgeStructure mesh)) \<and>
      list_all (\<lambda>vertex. vertexPointIndex vertex < length (mVerticesCoords mesh))
        (mVertices (mHalfEdgeStructure mesh)))"

text \<open>
  In a well-formed mesh every lookup of \<open>faceNormalAndPoint\<close> succeeds; the two values
  it then returns for face \<open>f\<close> are named \<open>faceNormalOf\<close> and \<open>facePointOf\<close>.
\<close>

definition faceNormalOf :: "ConvexMesh \<Rightarrow> nat \<Rightarrow> Vector3" where
  "faceNormalOf mesh f = mFacesNormals mesh ! f"

definition facePointOf :: "ConvexMesh \<Rightarrow> nat \<Rightarrow> Vector3" where
  "facePointOf mesh f =
     mVerticesCoords mesh !
       vertexPointIndex (mVertices (mHalfEdgeStructure mesh) !
         (faceVertices (mFaces (mHalfEdgeStructure mesh) ! f) ! 0))"

subsection \<open>raycast\<close>

record Ray =
  point1 :: Vector3
  point2 :: Vector3
  maxFraction :: decimal

text \<open>
  \<open>Collider.h\<close> and \<open>RaycastInfo.h\<close> are not among the sources: a collider is known by
  the body it belongs to, and \<open>RaycastInfo\<close> has the five fields \<open>raycast\<close> writes.
\<close>

record Collider =
  mBody :: nat

definition Collider_getBody :: "Collider \<Rightarrow> nat" where
  "Collider_getBody collider = mBody collider"

record RaycastInfo =
  hitFraction :: decimal
  body :: nat
  collider :: Collider
  worldPoint :: Vector3
  worldNormal :: Vector3

text \<open>The local variables that the loop of \<open>raycast\<close> updates.\<close>

record ClipState =
  tMin :: decimal
  tMax :: decimal
  currentFaceNormal :: Vector3
  isIntersectionFound :: bool

text \<open>
  The loop over the face indices. \<open>Inr None\<close> is a \<open>return false\<close> from inside the loop,
  \<open>Inr (Some st)\<close> is the end of the loop with the local variables \<open>st\<close>.
\<close>

fun raycastLoop ::
  "ConvexMesh \<Rightarrow> Vector3 \<Rightarrow> Vector3 \<Rightarrow> nat list \<Rightarrow> ClipState \<Rightarrow> error + ClipState option" where
  "raycastLoop mesh rayPoint1 direction [] st = Inr (Some st)"
| "raycastLoop mesh rayPoint1 direction (f # rest) st =
     (case faceNormalAndPoint mesh f of
        Inl e \<Rightarrow> Inl e
      | Inr (faceNormal, facePoint) \<Rightarrow>
          (let denom = dot faceNormal direction;
               planeD = dot faceNormal facePoint;
               dist = planeD - dot faceNormal rayPoint1
           in if denom = 0
              then (if dist < 0 then Inr None
                    else raycastLoop mesh rayPoint1 direction rest st)
              else (let t = dist / denom;
                        st' = (if denom < 0
                               then (if t > tMin st
                                     then st\<lparr>tMin := t, currentFaceNormal := faceNormal,
                                             isIntersectionFound := True\<rparr>
                                     else st)
                               else (if t < tMax st then st\<lparr>tMax := t\<rparr> else st))
                    in if tMin st' > tMax st' then Inr None
                       else raycastLoop mesh rayPoint1 direction rest st')))"

definition raycastInit :: "Ray \<Rightarrow> ClipState" where
  "raycastInit ray =
     \<lparr>tMin = 0, tMax = maxFraction ray, currentFaceNormal = Vector3_zero,
      isIntersectionFound = False\<rparr>"

text \<open>
  \<open>raycast\<close> returns \<open>false\<close> and leaves \<open>raycastInfo\<close> alone (\<open>Inr None\<close>), or returns
  \<open>true\<close> after writing the five fields (\<open>Inr (Some info)\<close>), or fails one of its four
  assertions.
\<close>

definition raycast ::
  "ConvexMeshShape \<Rightarrow> Ray \<Rightarrow> Collider \<Rightarrow> error + RaycastInfo option" where
  "raycast shape ray coll =
     (let direction = vec_sub (point2 ray) (point1 ray) in
      case raycastLoop (mConvexMesh shape) (point1 ray) direction
             [0 ..< ConvexMesh_getNbFaces (mConvexMesh shape)] (raycastInit ray) of
        Inl e \<Rightarrow> Inl e
      | Inr None \<Rightarrow> Inr None
      | Inr (Some st) \<Rightarrow>
          if isIntersectionFound st
          then (if \<not> tMin st \<ge> 0 then Inl AssertionFailure
                else if \<not> tMax st \<le> maxFraction ray then Inl AssertionFailure
                else if \<not> tMin st \<le> tMax st then Inl AssertionFailure
                else if \<not> lengthSquare (currentFaceNormal st) > 0 then Inl AssertionFailure
                else (let localHitPoint = vec_add (point1 ray) (vec_scale (tMin st) direction)
                      in Inr (Some \<lparr>hitFraction = tMin st, body = Collider_getBody coll,
                                     collider = coll, worldPoint = localHitPoint,
                                     worldNormal = currentFaceNormal st\<rparr>)))
          else Inr None)"

subsection \<open>testPointInside\<close>

text \<open>
  Modelled from the spec: \<open>computePointToPlaneDistance\<close>, whose header is not among the
  sources, is the signed distance \<open>dot(normal, point) - dot(normal, facePoint)\<close>.
\<close>

definition computePointToPlaneDistance :: "Vector3 \<Rightarrow> Vector3 \<Rightarrow> Vector3 \<Rightarrow> decimal" where
  "computePointToPlaneDistance point planeNormal planePoint =
     dot planeNormal point - dot planeNormal planePoint"

fun testPointInsideLoop :: "ConvexMesh \<Rightarrow> Vector3 \<Rightarrow> nat list \<Rightarrow> error + bool" where
  "testPointInsideLoop mesh localPoint [] = Inr True"
| "testPointInsideLoop mesh localPoint (f # rest) =
     (case faceNormalAndPoint mesh f of
        Inl e \<Rightarrow> Inl e
      | Inr (faceNormal, facePoint) \<Rightarrow>
          if computePointToPlaneDistance localPoint faceNormal facePoint > 0 then Inr False
          else testPointInsideLoop mesh localPoint rest)"

definition testPointInside :: "ConvexMeshShape \<Rightarrow> Vector3 \<Rightarrow> error + bool" where
  "testPointInside shape localPoint =
     testPointInsideLoop (mConvexMesh shape) localPoint
       [0 ..< ConvexMesh_getNbFaces (mConvexMesh shape)]"

subsection \<open>getLocalBounds\<close>

text \<open>
  Modelled from the spec: \<open>AABB\<close>, \<open>AABB::applyScale\<close> and \<open>ConvexMesh::getBounds\<close>, whose
  code is not among the sources. The bounds of a mesh are the componentwise minimum and
  maximum over its vertex coordinates, gathered point by point; applying a scale
  multiplies both corners by it, component by component.
\<close>

record AABB =
  mMinCoordinates :: Vector3
  mMaxCoordinates :: Vector3

definition AABB_mergePoint :: "AABB \<Rightarrow> Vector3 \<Rightarrow> AABB" where
  "AABB_mergePoint aabb p =
     \<lparr>mMinCoordinates = Vector3_min (mMinCoordinates aabb) p,
      mMaxCoordinates = Vector3_max (mMaxCoordinates aabb) p\<rparr>"

definition ConvexMesh_getBounds :: "ConvexMesh \<Rightarrow> AABB" where
  "ConvexMesh_getBounds mesh =
     (case mVerticesCoords mesh of
        [] \<Rightarrow> \<lparr>mMinCoordinates = Vector3_zero, mMaxCoordinates = Vector3_zero\<rparr>
      | v # vs \<Rightarrow> foldl AABB_mergePoint \<lparr>mMinCoordinates = v, mMaxCoordinates = v\<rparr> vs)"

definition AABB_applyScale :: "AABB \<Rightarrow> Vector3 \<Rightarrow> AABB" where
  "AABB_applyScale aabb scale =
     \<lparr>mMinCoordinates = vec_mul (mMinCoordinates aabb) scale,
      mMaxCoordinates = vec_mul (mMaxCoordinates aabb) scale\<rparr>"

definition getLocalBounds :: "ConvexMeshShape \<Rightarrow> AABB" where
  "getLocalBounds shape =
     (let aabb = ConvexMesh_getBounds (mConvexMesh shape)
      in AABB_applyScale aabb (mScale shape))"

section \<open>Invariants of the clipping loop\<close>

text \<open>
  What the four assertions at the end of \<open>raycast\<close> ask of the local variables, with
  \<open>tMin = 0\<close> as long as no face has raised it.
\<close>

definition clipInv :: "decimal \<Rightarrow> ClipState \<Rightarrow> bool" where
  "clipInv maxF st \<longleftrightarrow>
     0 \<le> tMin st \<and> tMax st \<le> maxF \<and>
     (if isIntersectionFound st
      then tMin st \<le> tMax st \<and> 0 < lengthSquare (currentFaceNormal st)
      else tMin st = 0)"

text \<open>
  The candidate normal and \<open>tMin\<close> were recorded at a face of \<open>F\<close>: a face that the ray
  enters (\<open>denom < 0\<close>), whose normal is the candidate and whose \<open>t\<close> is \<open>tMin\<close>.
\<close>

definition recorded :: "ConvexMesh \<Rightarrow> Vector3 \<Rightarrow> Vector3 \<Rightarrow> nat set \<Rightarrow> ClipState \<Rightarrow> bool" where
  "recorded mesh rayPoint1 direction F st \<longleftrightarrow>
     (\<exists>f n p. f \<in> F \<and> faceNormalAndPoint mesh f = Inr (n, p) \<and> currentFaceNormal st = n \<and>
        dot n direction < 0 \<and> tMin st = (dot n p - dot n rayPoint1) / dot n direction)"

section \<open>Three meshes\<close>

text \<open>
  The cube with its vertices at all combinations of \<open>\<plusminus>1\<close>, the same cube moved by 3
  along the first axis (the two share one half-edge structure), and a prism over the
  triangle \<open>(0, 1)\<close>, \<open>(-3/2, -1)\<close>, \<open>(3/2, -1)\<close>. Faces are counter-clockwise as seen from
  outside, normals are outward and of length one.
\<close>

definition cubeTopology :: HalfEdgeStructure where
  "cubeTopology =
     \<lparr>mFaces = [
        \<lparr>edgeIndex = Some 0, faceVertices = [0, 3, 2, 1]\<rparr>,
        \<lparr>edgeIndex = Some 4, faceVertices = [1, 2, 6, 5]\<rparr>,
        \<lparr>edgeIndex = Some 8, faceVertices = [0, 1, 5, 4]\<rparr>,
        \<lparr>edgeIndex = Some 12, faceVertices = [0, 4, 7, 3]\<rparr>,
        \<lparr>edgeIndex = Some 16, faceVertices = [4, 5, 6, 7]\<rparr>,
        \<lparr>edgeIndex = Some 20, faceVertices = [2, 3, 7, 6]\<rparr>],
      mVertices = [
        \<lparr>vertexPointIndex = 0, vertexEdgeIndex = Some 0\<rparr>,
        \<lparr>vertexPointIndex = 1, vertexEdgeIndex = Some 3\<rparr>,
        \<lparr>vertexPointIndex = 2, vertexEdgeIndex = Some 2\<rparr>,
        \<lparr>vertexPointIndex = 3, vertexEdgeIndex = Some 1\<rparr>,
        \<lparr>vertexPointIndex = 4, vertexEdgeIndex = Some 11\<rparr>,
        \<lparr>vertexPointIndex = 5, vertexEdgeIndex = Some 7\<rparr>,
        \<lparr>vertexPointIndex = 6, vertexEdgeIndex = Some 6\<rparr>,
        \<lparr>vertexPointIndex = 7, vertexEdgeIndex = Some 14\<rparr>],
      mEdges = [
        \<lparr>vertexIndex = 0, twinEdgeIndex = 15, faceIndex = 0, nextEdgeIndex = 1\<rparr>,
        \<lparr>vertexIndex = 3, twinEdgeIndex = 20, faceIndex = 0, nextEdgeIndex = 2\<rparr>,
        \<lparr>vertexIndex = 2, twinEdgeIndex = 4, faceIndex = 0, nextEdgeIndex = 3\<rparr>,
        \<lparr>vertexIndex = 1, twinEdgeIndex = 8, faceIndex = 0, nextEdgeIndex = 0\<rparr>,
        \<lparr>vertexIndex = 1, twinEdgeIndex = 2, faceIndex = 1, nextEdgeIndex = 5\<rparr>,
        \<lparr>vertexIndex = 2, twinEdgeIndex = 23, faceIndex = 1, nextEdgeIndex = 6\<rparr>,
        \<lparr>vertexIndex = 6, twinEdgeIndex = 17, faceIndex = 1, nextEdgeIndex = 7\<rparr>,
        \<lparr>vertexIndex = 5, twinEdgeIndex = 9, faceIndex = 1, nextEdgeIndex = 4\<rparr>,
        \<lparr>vertexIndex = 0, twinEdgeIndex = 3, faceIndex = 2, nextEdgeIndex = 9\<rparr>,
        \<lparr>vertexIndex = 1, twinEdgeIndex = 7, faceIndex = 2, nextEdgeIndex = 10\<rparr>,
        \<lparr>vertexIndex = 5, twinEdgeIndex = 16, faceIndex = 2, nextEdgeIndex = 11\<rparr>,
        \<lparr>vertexIndex = 4, twinEdgeIndex = 12, faceIndex = 2, nextEdgeIndex = 8\<rparr>,
        \<lparr>vertexIndex = 0, twinEdgeIndex = 11, faceIndex = 3, nextEdgeIndex = 13\<rparr>,
        \<lparr>vertexIndex = 4, twinEdgeIndex = 19, faceIndex = 3, nextEdgeIndex = 14\<rparr>,
        \<lparr>vertexIndex = 7, twinEdgeIndex = 21, faceIndex = 3, nextEdgeIndex = 15\<rparr>,
        \<lparr>vertexIndex = 3, twinEdgeIndex = 0, faceIndex = 3, nextEdgeIndex = 12\<rparr>,
        \<lparr>vertexIndex = 4, twinEdgeIndex = 10, faceIndex = 4, nextEdgeIndex = 17\<rparr>,
        \<lparr>vertexIndex = 5, twinEdgeIndex = 6, faceIndex = 4, nextEdgeIndex = 18\<rparr>,
        \<lparr>vertexIndex = 6, twinEdgeIndex = 22, faceIndex = 4, nextEdgeIndex = 19\<rparr>,
        \<lparr>vertexIndex = 7, twinEdgeIndex = 13, faceIndex = 4, nextEdgeIndex = 16\<rparr>,
        \<lparr>vertexIndex = 2, twinEdgeIndex = 1, faceIndex = 5, nextEdgeIndex = 21\<rparr>,
        \<lparr>vertexIndex = 3, twinEdgeIndex = 14, faceIndex = 5, nextEdgeIndex = 22\<rparr>,
        \<lparr>vertexIndex = 7, twinEdgeIndex = 18, faceIndex = 5, nextEdgeIndex = 23\<rparr>,
        \<lparr>vertexIndex = 6, twinEdgeIndex = 5, faceIndex = 5, nextEdgeIndex = 20\<rparr>]\<rparr>"

definition unitCubeMesh :: ConvexMesh where
  "unitCubeMesh =
     \<lparr>mHalfEdgeStructure = cubeTopology,
      mVerticesCoords = [
        \<lparr>x = - 1, y = - 1, z = 1\<rparr>,
        \<lparr>x = 1, y = - 1, z = 1\<rparr>,
        \<lparr>x = 1, y = - 1, z = - 1\<rparr>,
        \<lparr>x = - 1, y = - 1, z = - 1\<rparr>,
        \<lparr>x = - 1, y = 1, z = 1\<rparr>,
        \<lparr>x = 1, y = 1, z = 1\<rparr>,
        \<lparr>x = 1, y = 1, z = - 1\<rparr>,
        \<lparr>x = - 1, y = 1, z = - 1\<rparr>],
      mFacesNormals = [
        \<lparr>x = 0, y = - 1, z = 0\<rparr>,
        \<lparr>x = 1, y = 0, z = 0\<rparr>,
        \<lparr>x = 0, y = 0, z = 1\<rparr>,
        \<lparr>x = - 1, y = 0, z = 0\<rparr>,
        \<lparr>x = 0, y = 1, z = 0\<rparr>,
        \<lparr>x = 0, y = 0, z = - 1\<rparr>]\<rparr>"

definition shiftedCubeMesh :: ConvexMesh where
  "shiftedCubeMesh =
     \<lparr>mHalfEdgeStructure = cubeTopology,
      mVerticesCoords = [
        \<lparr>x = 2, y = - 1, z = 1\<rparr>,
        \<lparr>x = 4, y = - 1, z = 1\<rparr>,
        \<lparr>x = 4, y = - 1, z = - 1\<rparr>,
        \<lparr>x = 2, y = - 1, z = - 1\<rparr>,
        \<lparr>x = 2, y = 1, z = 1\<rparr>,
        \<lparr>x = 4, y = 1, z = 1\<rparr>,
        \<lparr>x = 4, y = 1, z = - 1\<rparr>,
        \<lparr>x = 2, y = 1, z = - 1\<rparr>],
      mFacesNormals = [
        \<lparr>x = 0, y = - 1, z = 0\<rparr>,
        \<lparr>x = 1, y = 0, z = 0\<rparr>,
        \<lparr>x = 0, y = 0, z = 1\<rparr>,
        \<lparr>x = - 1, y = 0, z = 0\<rparr>,
        \<lparr>x = 0, y = 1, z = 0\<rparr>,
        \<lparr>x = 0, y = 0, z = - 1\<rparr>]\<rparr>"

definition prismTopology :: HalfEdgeStructure where
  "prismTopology =
     \<lparr>mFaces = [
        \<lparr>edgeIndex = Some 0, faceVertices = [0, 1, 2]\<rparr>,
        \<lparr>edgeIndex = Some 3, faceVertices = [3, 5, 4]\<rparr>,
        \<lparr>edgeIndex = Some 6, faceVertices = [1, 4, 5, 2]\<rparr>,
        \<lparr>edgeIndex = Some 10, faceVertices = [0, 2, 5, 3]\<rparr>,
        \<lparr>edgeIndex = Some 14, faceVertices = [0, 3, 4, 1]\<rparr>],
      mVertices = [
        \<lparr>vertexPointIndex = 0, vertexEdgeIndex = Some 0\<rparr>,
        \<lparr>vertexPointIndex = 1, vertexEdgeIndex = Some 1\<rparr>,
        \<lparr>vertexPointIndex = 2, vertexEdgeIndex = Some 2\<rparr>,
        \<lparr>vertexPointIndex = 3, vertexEdgeIndex = Some 3\<rparr>,
        \<lparr>vertexPointIndex = 4, vertexEdgeIndex = Some 5\<rparr>,
        \<lparr>vertexPointIndex = 5, vertexEdgeIndex = Some 4\<rparr>],
      mEdges = [
        \<lparr>vertexIndex = 0, twinEdgeIndex = 17, faceIndex = 0, nextEdgeIndex = 1\<rparr>,
        \<lparr>vertexIndex = 1, twinEdgeIndex = 9, faceIndex = 0, nextEdgeIndex = 2\<rparr>,
        \<lparr>vertexIndex = 2, twinEdgeIndex = 10, faceIndex = 0, nextEdgeIndex = 0\<rparr>,
        \<lparr>vertexIndex = 3, twinEdgeIndex = 12, faceIndex = 1, nextEdgeIndex = 4\<rparr>,
        \<lparr>vertexIndex = 5, twinEdgeIndex = 7, faceIndex = 1, nextEdgeIndex = 5\<rparr>,
        \<lparr>vertexIndex = 4, twinEdgeIndex = 15, faceIndex = 1, nextEdgeIndex = 3\<rparr>,
        \<lparr>vertexIndex = 1, twinEdgeIndex = 16, faceIndex = 2, nextEdgeIndex = 7\<rparr>,
        \<lparr>vertexIndex = 4, twinEdgeIndex = 4, faceIndex = 2, nextEdgeIndex = 8\<rparr>,
        \<lparr>vertexIndex = 5, twinEdgeIndex = 11, faceIndex = 2, nextEdgeIndex = 9\<rparr>,
        \<lparr>vertexIndex = 2, twinEdgeIndex = 1, faceIndex = 2, nextEdgeIndex = 6\<rparr>,
        \<lparr>vertexIndex = 0, twinEdgeIndex = 2, faceIndex = 3, nextEdgeIndex = 11\<rparr>,
        \<lparr>vertexIndex = 2, twinEdgeIndex = 8, faceIndex = 3, nextEdgeIndex = 12\<rparr>,
        \<lparr>vertexIndex = 5, twinEdgeIndex = 3, faceIndex = 3, nextEdgeIndex = 13\<rparr>,
        \<lparr>vertexIndex = 3, twinEdgeIndex = 14, faceIndex = 3, nextEdgeIndex = 10\<rparr>,
        \<lparr>vertexIndex = 0, twinEdgeIndex = 13, faceIndex = 4, nextEdgeIndex = 15\<rparr>,
        \<lparr>vertexIndex = 3, twinEdgeIndex = 5, faceIndex = 4, nextEdgeIndex = 16\<rparr>,
        \<lparr>vertexIndex = 4, twinEdgeIndex = 6, faceIndex = 4, nextEdgeIndex = 17\<rparr>,
        \<lparr>vertexIndex = 1, twinEdgeIndex = 0, faceIndex = 4, nextEdgeIndex = 14\<rparr>]\<rparr>"

definition prismMesh :: ConvexMesh where
  "prismMesh =
     \<lparr>mHalfEdgeStructure = prismTopology,
      mVerticesCoords = [
        \<lparr>x = 0, y = 1, z = 1\<rparr>,
        \<lparr>x = - (3 / 2), y = - 1, z = 1\<rparr>,
        \<lparr>x = 3 / 2, y = - 1, z = 1\<rparr>,
        \<lparr>x = 0, y = 1, z = - 1\<rparr>,
        \<lparr>x = - (3 / 2), y = - 1, z = - 1\<rparr>,
        \<lparr>x = 3 / 2, y = - 1, z = - 1\<rparr>],
      mFacesNormals = [
        \<lparr>x = 0, y = 0, z = 1\<rparr>,
        \<lparr>x = 0, y = 0, z = - 1\<rparr>,
        \<lparr>x = 0, y = - 1, z = 0\<rparr>,
        \<lparr>x = 4 / 5, y = 3 / 5, z = 0\<rparr>,
        \<lparr>x = - (4 / 5), y = 3 / 5, z = 0\<rparr>]\<rparr>"

text \<open>
  The value of \<open>DECIMAL_SMALLEST\<close> when \<open>decimal\<close> is a single-precision float: the
  negation of the largest finite float.
\<close>

definition floatSmallest :: decimal where
  "floatSmallest = - 340282346638528859811704183484516925440"

section \<open>Accessors of the half-edge structure\<close>

text \<open>
  C9. Each of \<open>getFace\<close>, \<open>getHalfEdge\<close> and \<open>getVertex\<close> fails its assertion when the
  index is greater than or equal to the corresponding count, and returns the stored
  record, unchanged, when the index is below it.
\<close>

theorem accessors_checked:
  "getFace hs i = (if i < getNbFaces hs then Inr (mFaces hs ! i) else Inl AssertionFailure) \<and>
   getHalfEdge hs i = (if i < getNbHalfEdges hs then Inr (mEdges hs ! i) else Inl AssertionFailure) \<and>
   getVertex hs i = (if i < getNbVertices hs then Inr (mVertices hs ! i) else Inl AssertionFailure)"
  by (simp add: getFace_def getHalfEdge_def getVertex_def
      getNbFaces_def getNbHalfEdges_def getNbVertices_def)

section \<open>The support point\<close>

lemma supportLoop_append:
  "supportLoop mesh d (is @ js) acc =
     (case supportLoop mesh d is acc of Inl e \<Rightarrow> Inl e | Inr acc' \<Rightarrow> supportLoop mesh d js acc')"
  by (induction "is" arbitrary: acc) (auto split: sum.splits prod.splits simp: Let_def)

text \<open>
  The state of the scan after the first \<open>n\<close> vertices: the running maximum bounds every
  dot product seen, and either nothing has exceeded the initial value, or the index is
  the first one that attains the running maximum.
\<close>

lemma supportLoop_inv:
  "n \<le> length (mVerticesCoords mesh) \<Longrightarrow>
   \<exists>m k. supportLoop mesh d [0..<n] (smallest, 0) = Inr (m, k) \<and>
     smallest \<le> m \<and>
     (\<forall>j<n. dot d (mVerticesCoords mesh ! j) \<le> m) \<and>
     ((m = smallest \<and> k = 0) \<or>
      (k < n \<and> m = dot d (mVerticesCoords mesh ! k) \<and>
       (\<forall>j<k. dot d (mVerticesCoords mesh ! j) < m)))"
proof (induction n)
  case 0
  then show ?case by simp
next
  case (Suc n)
  then obtain m k where run: "supportLoop mesh d [0..<n] (smallest, 0) = Inr (m, k)"
    and lo: "smallest \<le> m"
    and ub: "\<forall>j<n. dot d (mVerticesCoords mesh ! j) \<le> m"
    and pos: "(m = smallest \<and> k = 0) \<or>
      (k < n \<and> m = dot d (mVerticesCoords mesh ! k) \<and>
       (\<forall>j<k. dot d (mVerticesCoords mesh ! j) < m))"
    by auto
  have inr: "n < length (mVerticesCoords mesh)" using Suc.prems by simp
  let ?dn = "dot d (mVerticesCoords mesh ! n)"
  show ?case
  proof (cases "?dn > m")
    case True
    have "supportLoop mesh d [0..<Suc n] (smallest, 0) = Inr (?dn, n)"
      using run inr True by (simp add: supportLoop_append ConvexMesh_getVertex_def)
    moreover have "\<forall>j<Suc n. dot d (mVerticesCoords mesh ! j) \<le> ?dn"
      using ub True by (auto simp: less_Suc_eq)
    moreover have "\<forall>j<n. dot d (mVerticesCoords mesh ! j) < ?dn"
      using ub True by fastforce
    ultimately show ?thesis using lo True by auto
  next
    case False
    have "supportLoop mesh d [0..<Suc n] (smallest, 0) = Inr (m, k)"
      using run inr False by (simp add: supportLoop_append ConvexMesh_getVertex_def)
    moreover have "\<forall>j<Suc n. dot d (mVerticesCoords mesh ! j) \<le> m"
      using ub False by (auto simp: less_Suc_eq)
    ultimately show ?thesis using lo pos by auto
  qed
qed

lemma supportLoop_all:
  obtains m k where
    "supportLoop mesh d [0..<ConvexMesh_getNbVertices mesh] (smallest, 0) = Inr (m, k)"
    "smallest \<le> m"
    "\<forall>j<length (mVerticesCoords mesh). dot d (mVerticesCoords mesh ! j) \<le> m"
    "(m = smallest \<and> k = 0) \<or>
      (k < length (mVerticesCoords mesh) \<and> m = dot d (mVerticesCoords mesh ! k) \<and>
       (\<forall>j<k. dot d (mVerticesCoords mesh ! j) < m))"
  using supportLoop_inv [of "length (mVerticesCoords mesh)" mesh d smallest]
  unfolding ConvexMesh_getNbVertices_def by blast

lemmas support_eval =
  getLocalSupportPointWithoutMargin_def ConvexMesh_getNbVertices_def ConvexMesh_getVertex_def
  dot_def vec_mul_def floatSmallest_def upt_rec

text \<open>
  C10. With \<open>DECIMAL_SMALLEST\<close> negative: when every vertex has a strictly negative dot
  product with the direction, the assertion \<open>maxDotProduct >= 0\<close> fails; and whenever a
  point is returned, some vertex has a non-negative dot product with the direction.
\<close>

theorem support_assertion:
  assumes neg: "smallest < 0"
  shows "((\<forall>v\<in>set (mVerticesCoords (mConvexMesh shape)). dot d v < 0) \<longrightarrow>
            getLocalSupportPointWithoutMargin smallest shape d = Inl AssertionFailure) \<and>
         (\<forall>p. getLocalSupportPointWithoutMargin smallest shape d = Inr p \<longrightarrow>
            (\<exists>v\<in>set (mVerticesCoords (mConvexMesh shape)). 0 \<le> dot d v))"
proof -
  let ?mesh = "mConvexMesh shape"
  obtain m k where run:
      "supportLoop ?mesh d [0..<ConvexMesh_getNbVertices ?mesh] (smallest, 0) = Inr (m, k)"
    and pos: "(m = smallest \<and> k = 0) \<or>
      (k < length (mVerticesCoords ?mesh) \<and> m = dot d (mVerticesCoords ?mesh ! k) \<and>
       (\<forall>j<k. dot d (mVerticesCoords ?mesh ! j) < m))"
    by (rule supportLoop_all)
  have res: "getLocalSupportPointWithoutMargin smallest shape d =
      (if 0 \<le> m then (case ConvexMesh_getVertex ?mesh k of Inl e \<Rightarrow> Inl e
                       | Inr v \<Rightarrow> Inr (vec_mul v (mScale shape)))
       else Inl AssertionFailure)"
    using run by (simp add: getLocalSupportPointWithoutMargin_def)
  have some: "\<exists>v\<in>set (mVerticesCoords ?mesh). 0 \<le> dot d v" if "0 \<le> m"
  proof -
    from that neg pos have "k < length (mVerticesCoords ?mesh)"
      and "m = dot d (mVerticesCoords ?mesh ! k)" by auto
    with that show ?thesis using nth_mem by metis
  qed
  have "getLocalSupportPointWithoutMargin smallest shape d = Inl AssertionFailure"
    if "\<forall>v\<in>set (mVerticesCoords ?mesh). dot d v < 0"
  proof -
    have "\<not> 0 \<le> m" using some that by fastforce
    then show ?thesis using res by simp
  qed
  moreover have "\<exists>v\<in>set (mVerticesCoords ?mesh). 0 \<le> dot d v"
    if "getLocalSupportPointWithoutMargin smallest shape d = Inr p" for p
  proof -
    have "0 \<le> m" using that res by (simp split: if_splits)
    then show ?thesis by (rule some)
  qed
  ultimately show ?thesis by blast
qed

text \<open>
  The cube moved by 3 along the first axis lies wholly on the negative side of the
  direction \<open>(-1, 0, 0)\<close>: the assertion fails.
\<close>

theorem support_assertion_witness:
  "getLocalSupportPointWithoutMargin floatSmallest
     \<lparr>mConvexMesh = shiftedCubeMesh, mScale = \<lparr>x = 1, y = 1, z = 1\<rparr>\<rparr>
     \<lparr>x = - 1, y = 0, z = 0\<rparr> = Inl AssertionFailure"
proof -
  let ?shape = "\<lparr>mConvexMesh = shiftedCubeMesh, mScale = \<lparr>x = 1, y = 1, z = 1\<rparr>\<rparr>"
  let ?d = "\<lparr>x = - 1, y = 0, z = 0\<rparr>"
  have neg: "floatSmallest < 0" by (simp add: floatSmallest_def)
  have all: "\<forall>v\<in>set (mVerticesCoords (mConvexMesh ?shape)). dot ?d v < 0"
    by (simp add: shiftedCubeMesh_def dot_def)
  from support_assertion [OF neg, of ?shape ?d] all show ?thesis by blast
qed

text \<open>
  C1, as the code has it. With \<open>DECIMAL_SMALLEST\<close> negative, when some vertex has a
  non-negative dot product with the direction, the function returns \<open>v * mScale\<close> for a
  vertex \<open>v\<close> whose dot product with the direction is the maximum over the vertices of
  the mesh (the vertices before scaling).
\<close>

theorem support_point_maximal:
  assumes neg: "smallest < 0"
    and some: "\<exists>v\<in>set (mVerticesCoords (mConvexMesh shape)). 0 \<le> dot d v"
  shows "\<exists>v\<in>set (mVerticesCoords (mConvexMesh shape)).
           getLocalSupportPointWithoutMargin smallest shape d = Inr (vec_mul v (mScale shape)) \<and>
           (\<forall>w\<in>set (mVerticesCoords (mConvexMesh shape)). dot d w \<le> dot d v)"
proof -
  let ?mesh = "mConvexMesh shape"
  let ?vs = "mVerticesCoords ?mesh"
  obtain m k where run:
      "supportLoop ?mesh d [0..<ConvexMesh_getNbVertices ?mesh] (smallest, 0) = Inr (m, k)"
    and ub: "\<forall>j<length ?vs. dot d (?vs ! j) \<le> m"
    and pos: "(m = smallest \<and> k = 0) \<or>
      (k < length ?vs \<and> m = dot d (?vs ! k) \<and> (\<forall>j<k. dot d (?vs ! j) < m))"
    by (rule supportLoop_all)
  from some obtain v where "v \<in> set ?vs" and "0 \<le> dot d v" by blast
  then have m0: "0 \<le> m" using ub by (fastforce simp: in_set_conv_nth)
  with neg pos have k: "k < length ?vs" and mk: "m = dot d (?vs ! k)" by auto
  have "getLocalSupportPointWithoutMargin smallest shape d = Inr (vec_mul (?vs ! k) (mScale shape))"
    using run m0 k by (simp add: getLocalSupportPointWithoutMargin_def ConvexMesh_getVertex_def)
  moreover have "\<forall>w\<in>set ?vs. dot d w \<le> dot d (?vs ! k)"
    using ub mk by (auto simp: in_set_conv_nth)
  moreover have "?vs ! k \<in> set ?vs" using k by simp
  ultimately show ?thesis by blast
qed

text \<open>
  On the unit cube scaled by \<open>(2, 1, 1)\<close>, in the direction \<open>(1, 0, 0)\<close>: the point
  returned is a scaled vertex of the cube, and it is \<open>(2, -1, 1)\<close>.
\<close>

theorem support_point_maximal_witness:
  "(\<exists>v\<in>set (mVerticesCoords unitCubeMesh).
      Inr \<lparr>x = 2, y = - 1, z = 1\<rparr> = Inr (vec_mul v \<lparr>x = 2, y = 1, z = 1\<rparr>) \<and>
      (\<forall>w\<in>set (mVerticesCoords unitCubeMesh). dot \<lparr>x = 1, y = 0, z = 0\<rparr> w
         \<le> dot \<lparr>x = 1, y = 0, z = 0\<rparr> v)) \<and>
   getLocalSupportPointWithoutMargin floatSmallest
     \<lparr>mConvexMesh = unitCubeMesh, mScale = \<lparr>x = 2, y = 1, z = 1\<rparr>\<rparr>
     \<lparr>x = 1, y = 0, z = 0\<rparr> = Inr \<lparr>x = 2, y = - 1, z = 1\<rparr>"
proof -
  let ?shape = "\<lparr>mConvexMesh = unitCubeMesh, mScale = \<lparr>x = 2, y = 1, z = 1\<rparr>\<rparr>"
  let ?d = "\<lparr>x = 1, y = 0, z = 0\<rparr>"
  have neg: "floatSmallest < 0" by (simp add: floatSmallest_def)
  have some: "\<exists>v\<in>set (mVerticesCoords (mConvexMesh ?shape)). 0 \<le> dot ?d v"
    by (simp add: unitCubeMesh_def dot_def)
  have run: "getLocalSupportPointWithoutMargin floatSmallest ?shape ?d =
      Inr \<lparr>x = 2, y = - 1, z = 1\<rparr>"
    by (simp add: support_eval unitCubeMesh_def)
  from support_point_maximal [OF neg some] show ?thesis
    unfolding run by simp
qed

text \<open>
  C1, as the claim states it, fails twice. On the prism scaled by \<open>(4, 1, 1)\<close>, in the
  direction \<open>(1, 2, 0)\<close>, the point returned is \<open>(0, 1, 1)\<close>, and the scaled vertex of
  index 2 lies further along the direction. On the cube moved by 3 along the first axis,
  in the direction \<open>(-2, 1, 0)\<close>, every dot product is negative and no point is returned.
\<close>

theorem support_point_counterexample:
  "getLocalSupportPointWithoutMargin floatSmallest
     \<lparr>mConvexMesh = prismMesh, mScale = \<lparr>x = 4, y = 1, z = 1\<rparr>\<rparr>
     \<lparr>x = 1, y = 2, z = 0\<rparr> = Inr \<lparr>x = 0, y = 1, z = 1\<rparr> \<and>
   dot \<lparr>x = 1, y = 2, z = 0\<rparr> \<lparr>x = 0, y = 1, z = 1\<rparr>
     < dot \<lparr>x = 1, y = 2, z = 0\<rparr>
         (vec_mul (mVerticesCoords prismMesh ! 2) \<lparr>x = 4, y = 1, z = 1\<rparr>) \<and>
   getLocalSupportPointWithoutMargin floatSmallest
     \<lparr>mConvexMesh = shiftedCubeMesh, mScale = \<lparr>x = 1, y = 1, z = 1\<rparr>\<rparr>
     \<lparr>x = - 2, y = 1, z = 0\<rparr> = Inl AssertionFailure"
  by (simp add: support_eval prismMesh_def shiftedCubeMesh_def)

text \<open>
  C6. When no dot product is below \<open>DECIMAL_SMALLEST\<close> (the least value of the scalar
  type) and the mesh has a vertex, the scan ends at the index \<open>k\<close> of the first vertex
  whose dot product is the maximum: no vertex has a larger one and every earlier vertex
  has a smaller one. The function returns that vertex, scaled, unless its assertion
  fails. The result is a function of the mesh, the scale and the direction alone.
\<close>

theorem support_first_maximum:
  assumes ne: "mVerticesCoords (mConvexMesh shape) \<noteq> []"
    and range: "\<forall>v\<in>set (mVerticesCoords (mConvexMesh shape)). smallest \<le> dot d v"
  shows "\<exists>k<length (mVerticesCoords (mConvexMesh shape)).
           supportLoop (mConvexMesh shape) d
             [0..<ConvexMesh_getNbVertices (mConvexMesh shape)] (smallest, 0) =
             Inr (dot d (mVerticesCoords (mConvexMesh shape) ! k), k) \<and>
           (\<forall>j<length (mVerticesCoords (mConvexMesh shape)).
              dot d (mVerticesCoords (mConvexMesh shape) ! j) \<le>
              dot d (mVerticesCoords (mConvexMesh shape) ! k)) \<and>
           (\<forall>j<k. dot d (mVerticesCoords (mConvexMesh shape) ! j) <
              dot d (mVerticesCoords (mConvexMesh shape) ! k)) \<and>
           getLocalSupportPointWithoutMargin smallest shape d =
             (if 0 \<le> dot d (mVerticesCoords (mConvexMesh shape) ! k)
              then Inr (vec_mul (mVerticesCoords (mConvexMesh shape) ! k) (mScale shape))
              else Inl AssertionFailure)"
proof -
  let ?mesh = "mConvexMesh shape"
  let ?vs = "mVerticesCoords ?mesh"
  obtain m k where run:
      "supportLoop ?mesh d [0..<ConvexMesh_getNbVertices ?mesh] (smallest, 0) = Inr (m, k)"
    and ub: "\<forall>j<length ?vs. dot d (?vs ! j) \<le> m"
    and pos: "(m = smallest \<and> k = 0) \<or>
      (k < length ?vs \<and> m = dot d (?vs ! k) \<and> (\<forall>j<k. dot d (?vs ! j) < m))"
    by (rule supportLoop_all)
  have len: "0 < length ?vs" using ne by simp
  have first: "k < length ?vs \<and> m = dot d (?vs ! k) \<and> (\<forall>j<k. dot d (?vs ! j) < m)"
  proof (cases "m = smallest \<and> k = 0")
    case True
    have "dot d (?vs ! 0) \<le> m" using ub len by blast
    moreover have "smallest \<le> dot d (?vs ! 0)" using range len by simp
    ultimately show ?thesis using True len by simp
  next
    case False
    then show ?thesis using pos by blast
  qed
  then have k: "k < length ?vs" and mk: "m = dot d (?vs ! k)"
    and lt: "\<forall>j<k. dot d (?vs ! j) < dot d (?vs ! k)" by auto
  have "getLocalSupportPointWithoutMargin smallest shape d =
      (if 0 \<le> dot d (?vs ! k) then Inr (vec_mul (?vs ! k) (mScale shape))
       else Inl AssertionFailure)"
    using run k mk by (simp add: getLocalSupportPointWithoutMargin_def ConvexMesh_getVertex_def)
  then show ?thesis using run k mk lt ub by auto
qed

text \<open>
  On the unit cube, four vertices are tied in the direction \<open>(1, 0, 0)\<close>, at the indices
  1, 2, 5 and 6: the scan ends at index 1 and the function returns that vertex.
\<close>

theorem support_first_maximum_witness:
  "supportLoop unitCubeMesh \<lparr>x = 1, y = 0, z = 0\<rparr> [0..<8] (floatSmallest, 0) = Inr (1, 1) \<and>
   getLocalSupportPointWithoutMargin floatSmallest
     \<lparr>mConvexMesh = unitCubeMesh, mScale = \<lparr>x = 1, y = 1, z = 1\<rparr>\<rparr>
     \<lparr>x = 1, y = 0, z = 0\<rparr> = Inr (mVerticesCoords unitCubeMesh ! 1)"
proof -
  let ?shape = "\<lparr>mConvexMesh = unitCubeMesh, mScale = \<lparr>x = 1, y = 1, z = 1\<rparr>\<rparr>"
  let ?d = "\<lparr>x = 1, y = 0, z = 0\<rparr>"
  have ne: "mVerticesCoords (mConvexMesh ?shape) \<noteq> []" by (simp add: unitCubeMesh_def)
  have range: "\<forall>v\<in>set (mVerticesCoords (mConvexMesh ?shape)). floatSmallest \<le> dot ?d v"
    by (simp add: unitCubeMesh_def dot_def floatSmallest_def)
  have run: "supportLoop unitCubeMesh ?d [0..<8] (floatSmallest, 0) = Inr (1, 1)"
    by (simp add: support_eval unitCubeMesh_def)
  have n: "ConvexMesh_getNbVertices unitCubeMesh = 8"
    by (simp add: ConvexMesh_getNbVertices_def unitCubeMesh_def)
  from support_first_maximum [OF ne range] obtain k where
    "supportLoop (mConvexMesh ?shape) ?d
       [0..<ConvexMesh_getNbVertices (mConvexMesh ?shape)] (floatSmallest, 0) =
       Inr (dot ?d (mVerticesCoords (mConvexMesh ?shape) ! k), k)"
    and res: "getLocalSupportPointWithoutMargin floatSmallest ?shape ?d =
      (if 0 \<le> dot ?d (mVerticesCoords (mConvexMesh ?shape) ! k)
       then Inr (vec_mul (mVerticesCoords (mConvexMesh ?shape) ! k) (mScale ?shape))
       else Inl AssertionFailure)"
    by blast
  then have "k = 1" using run n by simp
  with res have "getLocalSupportPointWithoutMargin floatSmallest ?shape ?d =
      Inr (mVerticesCoords unitCubeMesh ! 1)"
    by (simp add: unitCubeMesh_def dot_def vec_mul_def)
  with run show ?thesis by simp
qed

section \<open>The plane of a face in a well-formed mesh\<close>

lemma faceNormalAndPoint_wf:
  assumes "wellFormedMesh mesh" and "f < ConvexMesh_getNbFaces mesh"
  shows "faceNormalAndPoint mesh f = Inr (faceNormalOf mesh f, facePointOf mesh f)"
proof -
  let ?hs = "mHalfEdgeStructure mesh"
  let ?face = "mFaces ?hs ! f"
  have f: "f < length (mFaces ?hs)"
    using assms(2) by (simp add: ConvexMesh_getNbFaces_def getNbFaces_def)
  then have mem: "?face \<in> set (mFaces ?hs)" by simp
  have n: "f < length (mFacesNormals mesh)"
    using assms(1) f by (simp add: wellFormedMesh_def)
  have ne: "faceVertices ?face \<noteq> []"
    and inr: "\<forall>v\<in>set (faceVertices ?face). v < length (mVertices ?hs)"
    using assms(1) mem by (auto simp: wellFormedMesh_def list_all_iff)
  from ne have v0: "0 < length (faceVertices ?face)" by simp
  then have "faceVertices ?face ! 0 \<in> set (faceVertices ?face)" using nth_mem by blast
  with inr have v0r: "faceVertices ?face ! 0 < length (mVertices ?hs)" by blast
  then have "mVertices ?hs ! (faceVertices ?face ! 0) \<in> set (mVertices ?hs)" by simp
  then have p: "vertexPointIndex (mVertices ?hs ! (faceVertices ?face ! 0))
      < length (mVerticesCoords mesh)"
    using assms(1) by (auto simp: wellFormedMesh_def list_all_iff)
  show ?thesis
    using f n v0 v0r p
    by (simp add: faceNormalAndPoint_def getFace_def ConvexMesh_getFaceNormal_def Array_at_def
        getVertex_def ConvexMesh_getVertex_def faceNormalOf_def facePointOf_def)
qed

lemma wellFormed_unitCube: "wellFormedMesh unitCubeMesh"
  by (simp add: wellFormedMesh_def unitCubeMesh_def cubeTopology_def)

lemmas cube_eval =
  unitCubeMesh_def cubeTopology_def ConvexMesh_getNbFaces_def getNbFaces_def
  faceNormalAndPoint_def getFace_def getVertex_def Array_at_def ConvexMesh_getFaceNormal_def
  ConvexMesh_getVertex_def faceNormalOf_def facePointOf_def dot_def vec_sub_def vec_add_def
  vec_scale_def lengthSquare_def Vector3_zero_def Collider_getBody_def raycastInit_def upt_rec

section \<open>The ray cast\<close>

lemma lengthSquare_pos: "dot n d \<noteq> 0 \<Longrightarrow> 0 < lengthSquare n"
proof (rule ccontr)
  assume nz: "dot n d \<noteq> 0" and "\<not> 0 < lengthSquare n"
  then have "x n * x n + y n * y n + z n * z n \<le> 0" by (simp add: lengthSquare_def)
  moreover have "0 \<le> x n * x n" "0 \<le> y n * y n" "0 \<le> z n * z n" by simp_all
  ultimately have "x n * x n = 0" "y n * y n = 0" "z n * z n = 0" by linarith+
  then have "x n = 0" "y n = 0" "z n = 0" by simp_all
  then have "dot n d = 0" by (simp add: dot_def)
  with nz show False by simp
qed

text \<open>A loop that runs to its end keeps what the four assertions ask.\<close>

lemma raycastLoop_inv:
  "raycastLoop mesh p1 dir fs st = Inr (Some st') \<Longrightarrow> clipInv maxF st \<Longrightarrow> clipInv maxF st'"
proof (induction fs arbitrary: st)
  case Nil
  then show ?case by simp
next
  case (Cons f fs)
  from Cons.prems(1) obtain n p where np: "faceNormalAndPoint mesh f = Inr (n, p)"
    by (auto split: sum.splits)
  let ?denom = "dot n dir"
  let ?t = "(dot n p - dot n p1) / ?denom"
  show ?case
  proof (cases "?denom = 0")
    case True
    with Cons.prems(1) np have "raycastLoop mesh p1 dir fs st = Inr (Some st')"
      by (simp split: if_splits)
    then show ?thesis using Cons.IH Cons.prems(2) by blast
  next
    case False
    define st1 where "st1 = (if ?denom < 0
        then (if ?t > tMin st
              then st\<lparr>tMin := ?t, currentFaceNormal := n, isIntersectionFound := True\<rparr>
              else st)
        else (if ?t < tMax st then st\<lparr>tMax := ?t\<rparr> else st))"
    from Cons.prems(1) np False have le: "\<not> tMin st1 > tMax st1"
      and rest: "raycastLoop mesh p1 dir fs st1 = Inr (Some st')"
      by (simp_all add: Let_def st1_def split: if_splits)
    have "0 < lengthSquare n" using False by (rule lengthSquare_pos)
    then have "clipInv maxF st1"
      using Cons.prems(2) le unfolding clipInv_def st1_def
      by (auto split: if_splits)
    then show ?thesis using Cons.IH rest by blast
  qed
qed

lemma clipInv_init: "clipInv (maxFraction ray) (raycastInit ray)"
  by (simp add: clipInv_def raycastInit_def)

lemma recorded_mono: "recorded mesh p1 dir F st \<Longrightarrow> F \<subseteq> G \<Longrightarrow> recorded mesh p1 dir G st"
  unfolding recorded_def by blast

text \<open>
  Once the flag is set, the candidate normal and \<open>tMin\<close> come from one of the faces the
  loop has visited.
\<close>

lemma raycastLoop_recorded:
  "raycastLoop mesh p1 dir fs st = Inr (Some st') \<Longrightarrow>
   (isIntersectionFound st \<Longrightarrow> recorded mesh p1 dir F st) \<Longrightarrow>
   isIntersectionFound st' \<Longrightarrow> recorded mesh p1 dir (F \<union> set fs) st'"
proof (induction fs arbitrary: st F)
  case Nil
  then show ?case by simp
next
  case (Cons f fs)
  from Cons.prems(1) obtain n p where np: "faceNormalAndPoint mesh f = Inr (n, p)"
    by (auto split: sum.splits)
  let ?denom = "dot n dir"
  let ?t = "(dot n p - dot n p1) / ?denom"
  have sub: "insert f F \<union> set fs = F \<union> set (f # fs)" by auto
  show ?case
  proof (cases "?denom = 0")
    case True
    with Cons.prems(1) np have "raycastLoop mesh p1 dir fs st = Inr (Some st')"
      by (simp split: if_splits)
    from Cons.IH [OF this, of F] Cons.prems(2,3)
    have "recorded mesh p1 dir (F \<union> set fs) st'" by blast
    then show ?thesis by (rule recorded_mono) auto
  next
    case False
    define st1 where "st1 = (if ?denom < 0
        then (if ?t > tMin st
              then st\<lparr>tMin := ?t, currentFaceNormal := n, isIntersectionFound := True\<rparr>
              else st)
        else (if ?t < tMax st then st\<lparr>tMax := ?t\<rparr> else st))"
    from Cons.prems(1) np False
    have rest: "raycastLoop mesh p1 dir fs st1 = Inr (Some st')"
      by (simp_all add: Let_def st1_def split: if_splits)
    have "recorded mesh p1 dir (insert f F) st1" if "isIntersectionFound st1"
    proof (cases "?denom < 0 \<and> ?t > tMin st")
      case True
      then have "currentFaceNormal st1 = n" "tMin st1 = ?t" by (simp_all add: st1_def)
      with True np show ?thesis unfolding recorded_def by blast
    next
      case False
      then have same: "currentFaceNormal st1 = currentFaceNormal st" "tMin st1 = tMin st"
        "isIntersectionFound st1 = isIntersectionFound st"
        by (auto simp: st1_def)
      with that Cons.prems(2) have "recorded mesh p1 dir F st" by simp
      then have "recorded mesh p1 dir F st1" using same by (simp add: recorded_def)
      then show ?thesis by (rule recorded_mono) auto
    qed
    from Cons.IH [OF rest, of "insert f F"] this Cons.prems(3)
    have "recorded mesh p1 dir (insert f F \<union> set fs) st'" by blast
    then show ?thesis using sub by simp
  qed
qed

text \<open>
  C3. When the loop over the faces runs to its end, \<open>raycast\<close> fails none of its
  assertions: it returns no hit when the flag \<open>isIntersectionFound\<close> was never set (and
  then \<open>tMin\<close> is still 0), and otherwise a hit whose fraction is \<open>tMin\<close>, whose point is
  \<open>point1 + tMin * direction\<close> and whose normal is the candidate normal last recorded, the
  normal of a face that the ray enters at parameter \<open>tMin\<close>.
\<close>

theorem raycast_result:
  assumes loop: "raycastLoop (mConvexMesh shape) (point1 ray) (vec_sub (point2 ray) (point1 ray))
             [0 ..< ConvexMesh_getNbFaces (mConvexMesh shape)] (raycastInit ray) = Inr (Some st)"
  shows "raycast shape ray coll =
           (if isIntersectionFound st
            then Inr (Some \<lparr>hitFraction = tMin st, body = Collider_getBody coll, collider = coll,
                   worldPoint = vec_add (point1 ray)
                     (vec_scale (tMin st) (vec_sub (point2 ray) (point1 ray))),
                   worldNormal = currentFaceNormal st\<rparr>)
            else Inr None) \<and>
         (if isIntersectionFound st
          then recorded (mConvexMesh shape) (point1 ray) (vec_sub (point2 ray) (point1 ray))
                 {..<ConvexMesh_getNbFaces (mConvexMesh shape)} st
          else tMin st = 0)"
proof -
  have inv: "clipInv (maxFraction ray) st"
    using raycastLoop_inv [OF loop clipInv_init] .
  then have "raycast shape ray coll =
           (if isIntersectionFound st
            then Inr (Some \<lparr>hitFraction = tMin st, body = Collider_getBody coll, collider = coll,
                   worldPoint = vec_add (point1 ray)
                     (vec_scale (tMin st) (vec_sub (point2 ray) (point1 ray))),
                   worldNormal = currentFaceNormal st\<rparr>)
            else Inr None)"
    using loop by (simp add: raycast_def clipInv_def Let_def split: if_splits)
  moreover have "recorded (mConvexMesh shape) (point1 ray) (vec_sub (point2 ray) (point1 ray))
                 {..<ConvexMesh_getNbFaces (mConvexMesh shape)} st"
    if "isIntersectionFound st"
  proof -
    have "recorded (mConvexMesh shape) (point1 ray) (vec_sub (point2 ray) (point1 ray))
        ({} \<union> set [0 ..< ConvexMesh_getNbFaces (mConvexMesh shape)]) st"
      using loop _ that by (rule raycastLoop_recorded) (simp add: raycastInit_def)
    then show ?thesis by (simp add: atLeast0LessThan)
  qed
  moreover have "tMin st = 0" if "\<not> isIntersectionFound st"
    using inv that by (simp add: clipInv_def)
  ultimately show ?thesis by simp
qed

text \<open>
  On the unit cube: the ray from \<open>(-5, 0, 0)\<close> to \<open>(5, 0, 0)\<close> hits at fraction \<open>2/5\<close>, at
  the point \<open>(-1, 0, 0)\<close> with normal \<open>(-1, 0, 0)\<close>; the ray from the centre to
  \<open>(1/2, 0, 0)\<close> stays inside every half-space and gives no hit.
\<close>

theorem raycast_result_witness:
  "raycast \<lparr>mConvexMesh = unitCubeMesh, mScale = \<lparr>x = 1, y = 1, z = 1\<rparr>\<rparr>
     \<lparr>point1 = \<lparr>x = - 5, y = 0, z = 0\<rparr>, point2 = \<lparr>x = 5, y = 0, z = 0\<rparr>, maxFraction = 1\<rparr>
     \<lparr>mBody = 7\<rparr> =
     Inr (Some \<lparr>hitFraction = 2 / 5, body = 7, collider = \<lparr>mBody = 7\<rparr>,
            worldPoint = \<lparr>x = - 1, y = 0, z = 0\<rparr>, worldNormal = \<lparr>x = - 1, y = 0, z = 0\<rparr>\<rparr>) \<and>
   raycast \<lparr>mConvexMesh = unitCubeMesh, mScale = \<lparr>x = 1, y = 1, z = 1\<rparr>\<rparr>
     \<lparr>point1 = \<lparr>x = 0, y = 0, z = 0\<rparr>, point2 = \<lparr>x = 1 / 2, y = 0, z = 0\<rparr>, maxFraction = 1\<rparr>
     \<lparr>mBody = 7\<rparr> = Inr None"
proof -
  let ?shape = "\<lparr>mConvexMesh = unitCubeMesh, mScale = \<lparr>x = 1, y = 1, z = 1\<rparr>\<rparr>"
  let ?hit = "\<lparr>point1 = \<lparr>x = - 5, y = 0, z = 0\<rparr>, point2 = \<lparr>x = 5, y = 0, z = 0\<rparr>,
      maxFraction = 1\<rparr>"
  let ?in = "\<lparr>point1 = \<lparr>x = 0, y = 0, z = 0\<rparr>, point2 = \<lparr>x = 1 / 2, y = 0, z = 0\<rparr>,
      maxFraction = 1\<rparr>"
  let ?st = "\<lparr>tMin = 2 / 5, tMax = 3 / 5, currentFaceNormal = \<lparr>x = - 1, y = 0, z = 0\<rparr>,
      isIntersectionFound = True\<rparr>"
  have hit: "raycastLoop (mConvexMesh ?shape) (point1 ?hit) (vec_sub (point2 ?hit) (point1 ?hit))
      [0 ..< ConvexMesh_getNbFaces (mConvexMesh ?shape)] (raycastInit ?hit) = Inr (Some ?st)"
    by (simp add: cube_eval)
  have inside: "raycastLoop (mConvexMesh ?shape) (point1 ?in) (vec_sub (point2 ?in) (point1 ?in))
      [0 ..< ConvexMesh_getNbFaces (mConvexMesh ?shape)] (raycastInit ?in) =
      Inr (Some (raycastInit ?in))"
    by (simp add: cube_eval)
  from raycast_result [OF hit, of "\<lparr>mBody = 7\<rparr>"]
    raycast_result [OF inside, of "\<lparr>mBody = 7\<rparr>"]
  show ?thesis by (simp add: cube_eval)
qed

lemma raycastLoop_parallel_outside:
  assumes wf: "wellFormedMesh mesh"
    and par: "dot (faceNormalOf mesh f) dir = 0"
    and out: "dot (faceNormalOf mesh f) (facePointOf mesh f) - dot (faceNormalOf mesh f) p1 < 0"
  shows "f \<in> set fs \<Longrightarrow> \<forall>g\<in>set fs. g < ConvexMesh_getNbFaces mesh \<Longrightarrow>
         raycastLoop mesh p1 dir fs st = Inr None"
proof (induction fs arbitrary: st)
  case Nil
  then show ?case by simp
next
  case (Cons g fs)
  have g: "faceNormalAndPoint mesh g = Inr (faceNormalOf mesh g, facePointOf mesh g)"
    using wf Cons.prems(2) by (simp add: faceNormalAndPoint_wf)
  show ?case
  proof (cases "g = f")
    case True
    then show ?thesis using g par out by simp
  next
    case False
    with Cons.prems have "raycastLoop mesh p1 dir fs st' = Inr None" for st'
      using Cons.IH by simp
    then show ?thesis using g by (simp add: Let_def)
  qed
qed

text \<open>
  C5. In a well-formed mesh, when some face \<open>f\<close> is parallel to the ray (\<open>denom = 0\<close>)
  and the origin of the ray is strictly outside its half-space (\<open>dist < 0\<close>), \<open>raycast\<close>
  returns no hit; and the loop, once at \<open>f\<close>, returns at once, whatever faces remain and
  whatever the state is.
\<close>

theorem raycast_parallel_outside:
  assumes wf: "wellFormedMesh (mConvexMesh shape)"
    and f: "f < ConvexMesh_getNbFaces (mConvexMesh shape)"
    and par: "dot (faceNormalOf (mConvexMesh shape) f) (vec_sub (point2 ray) (point1 ray)) = 0"
    and out: "dot (faceNormalOf (mConvexMesh shape) f) (facePointOf (mConvexMesh shape) f)
                - dot (faceNormalOf (mConvexMesh shape) f) (point1 ray) < 0"
  shows "raycast shape ray coll = Inr None \<and>
         (\<forall>rest st. raycastLoop (mConvexMesh shape) (point1 ray)
                      (vec_sub (point2 ray) (point1 ray)) (f # rest) st = Inr None)"
proof -
  have "raycastLoop (mConvexMesh shape) (point1 ray) (vec_sub (point2 ray) (point1 ray))
      [0 ..< ConvexMesh_getNbFaces (mConvexMesh shape)] (raycastInit ray) = Inr None"
    using wf par out by (rule raycastLoop_parallel_outside) (use f in simp_all)
  then have "raycast shape ray coll = Inr None" by (simp add: raycast_def)
  moreover have "raycastLoop (mConvexMesh shape) (point1 ray)
      (vec_sub (point2 ray) (point1 ray)) (f # rest) st = Inr None" for rest st
    using faceNormalAndPoint_wf [OF wf f] par out by simp
  ultimately show ?thesis by blast
qed

text \<open>
  The ray from \<open>(-5, 2, 0)\<close> to \<open>(5, 2, 0)\<close> is parallel to the face \<open>y = 1\<close> of the unit
  cube (face 4) and beyond it.
\<close>

theorem raycast_parallel_outside_witness:
  "raycast \<lparr>mConvexMesh = unitCubeMesh, mScale = \<lparr>x = 1, y = 1, z = 1\<rparr>\<rparr>
     \<lparr>point1 = \<lparr>x = - 5, y = 2, z = 0\<rparr>, point2 = \<lparr>x = 5, y = 2, z = 0\<rparr>, maxFraction = 1\<rparr>
     \<lparr>mBody = 7\<rparr> = Inr None"
proof -
  let ?shape = "\<lparr>mConvexMesh = unitCubeMesh, mScale = \<lparr>x = 1, y = 1, z = 1\<rparr>\<rparr>"
  let ?ray = "\<lparr>point1 = \<lparr>x = - 5, y = 2, z = 0\<rparr>, point2 = \<lparr>x = 5, y = 2, z = 0\<rparr>,
      maxFraction = 1\<rparr>"
  have wf: "wellFormedMesh (mConvexMesh ?shape)" by (simp add: wellFormed_unitCube)
  have f: "4 < ConvexMesh_getNbFaces (mConvexMesh ?shape)" by (simp add: cube_eval)
  have par: "dot (faceNormalOf (mConvexMesh ?shape) 4) (vec_sub (point2 ?ray) (point1 ?ray)) = 0"
    by (simp add: cube_eval)
  have out: "dot (faceNormalOf (mConvexMesh ?shape) 4) (facePointOf (mConvexMesh ?shape) 4)
                - dot (faceNormalOf (mConvexMesh ?shape) 4) (point1 ?ray) < 0"
    by (simp add: cube_eval)
  from raycast_parallel_outside [OF wf f par out] show ?thesis by blast
qed

lemma raycastLoop_zero_direction:
  assumes wf: "wellFormedMesh mesh" and zero: "\<And>n. dot n dir = 0"
  shows "\<forall>g\<in>set fs. g < ConvexMesh_getNbFaces mesh \<Longrightarrow>
         raycastLoop mesh p1 dir fs st =
           (if \<exists>f\<in>set fs. dot (faceNormalOf mesh f) (facePointOf mesh f)
                  - dot (faceNormalOf mesh f) p1 < 0
            then Inr None else Inr (Some st))"
proof (induction fs)
  case Nil
  then show ?case by simp
next
  case (Cons g fs)
  have g: "faceNormalAndPoint mesh g = Inr (faceNormalOf mesh g, facePointOf mesh g)"
    using wf Cons.prems by (simp add: faceNormalAndPoint_wf)
  show ?case using Cons g zero by simp
qed

text \<open>
  C8. In a well-formed mesh, a ray with \<open>point2 = point1\<close> gives no hit and no failure:
  every face takes the branch \<open>denom = 0\<close>, so that the loop either returns at a face with
  \<open>dist < 0\<close> or runs to its end with the local variables as they were at the start, the
  flag unset. The quotient \<open>dist / denom\<close> is in the other branch.
\<close>

theorem raycast_zero_direction:
  assumes wf: "wellFormedMesh (mConvexMesh shape)"
    and same: "point2 ray = point1 ray"
  shows "raycast shape ray coll = Inr None \<and>
         raycastLoop (mConvexMesh shape) (point1 ray) (vec_sub (point2 ray) (point1 ray))
           [0 ..< ConvexMesh_getNbFaces (mConvexMesh shape)] (raycastInit ray) =
           (if \<exists>f<ConvexMesh_getNbFaces (mConvexMesh shape).
                 dot (faceNormalOf (mConvexMesh shape) f) (facePointOf (mConvexMesh shape) f)
                   - dot (faceNormalOf (mConvexMesh shape) f) (point1 ray) < 0
            then Inr None else Inr (Some (raycastInit ray)))"
proof -
  let ?mesh = "mConvexMesh shape"
  let ?dir = "vec_sub (point2 ray) (point1 ray)"
  have zero: "dot n ?dir = 0" for n
    using same by (simp add: dot_def vec_sub_def)
  have "raycastLoop ?mesh (point1 ray) ?dir [0 ..< ConvexMesh_getNbFaces ?mesh] (raycastInit ray) =
      (if \<exists>f\<in>set [0 ..< ConvexMesh_getNbFaces ?mesh].
            dot (faceNormalOf ?mesh f) (facePointOf ?mesh f)
              - dot (faceNormalOf ?mesh f) (point1 ray) < 0
       then Inr None else Inr (Some (raycastInit ray)))"
    using wf zero by (rule raycastLoop_zero_direction) simp
  then have loop: "raycastLoop ?mesh (point1 ray) ?dir [0 ..< ConvexMesh_getNbFaces ?mesh]
      (raycastInit ray) =
      (if \<exists>f<ConvexMesh_getNbFaces ?mesh.
            dot (faceNormalOf ?mesh f) (facePointOf ?mesh f)
              - dot (faceNormalOf ?mesh f) (point1 ray) < 0
       then Inr None else Inr (Some (raycastInit ray)))"
    by (simp add: Bex_def)
  then have "raycast shape ray coll = Inr None"
    by (simp add: raycast_def raycastInit_def)
  with loop show ?thesis by blast
qed

text \<open>
  On the unit cube, with both points at the centre and with both points at \<open>(5, 0, 0)\<close>.
\<close>

theorem raycast_zero_direction_witness:
  "raycast \<lparr>mConvexMesh = unitCubeMesh, mScale = \<lparr>x = 1, y = 1, z = 1\<rparr>\<rparr>
     \<lparr>point1 = \<lparr>x = 0, y = 0, z = 0\<rparr>, point2 = \<lparr>x = 0, y = 0, z = 0\<rparr>, maxFraction = 1\<rparr>
     \<lparr>mBody = 7\<rparr> = Inr None \<and>
   raycast \<lparr>mConvexMesh = unitCubeMesh, mScale = \<lparr>x = 1, y = 1, z = 1\<rparr>\<rparr>
     \<lparr>point1 = \<lparr>x = 5, y = 0, z = 0\<rparr>, point2 = \<lparr>x = 5, y = 0, z = 0\<rparr>, maxFraction = 1\<rparr>
     \<lparr>mBody = 7\<rparr> = Inr None"
proof -
  let ?shape = "\<lparr>mConvexMesh = unitCubeMesh, mScale = \<lparr>x = 1, y = 1, z = 1\<rparr>\<rparr>"
  let ?in = "\<lparr>point1 = \<lparr>x = 0, y = 0, z = 0\<rparr>, point2 = \<lparr>x = 0, y = 0, z = 0\<rparr>,
      maxFraction = 1\<rparr>"
  let ?out = "\<lparr>point1 = \<lparr>x = 5, y = 0, z = 0\<rparr>, point2 = \<lparr>x = 5, y = 0, z = 0\<rparr>,
      maxFraction = 1\<rparr>"
  have wf: "wellFormedMesh (mConvexMesh ?shape)" by (simp add: wellFormed_unitCube)
  have "point2 ?in = point1 ?in" and "point2 ?out = point1 ?out" by simp_all
  with raycast_zero_direction [OF wf, of ?in] raycast_zero_direction [OF wf, of ?out]
  show ?thesis by blast
qed

section \<open>Point containment\<close>

lemma testPointInsideLoop_wf:
  assumes wf: "wellFormedMesh mesh"
  shows "\<forall>g\<in>set fs. g < ConvexMesh_getNbFaces mesh \<Longrightarrow>
         testPointInsideLoop mesh pt fs =
           Inr (\<forall>f\<in>set fs. dot (faceNormalOf mesh f) pt
                  - dot (faceNormalOf mesh f) (facePointOf mesh f) \<le> 0)"
proof (induction fs)
  case Nil
  then show ?case by simp
next
  case (Cons g fs)
  have g: "faceNormalAndPoint mesh g = Inr (faceNormalOf mesh g, facePointOf mesh g)"
    using wf Cons.prems by (simp add: faceNormalAndPoint_wf)
  show ?case using Cons g by (auto simp: computePointToPlaneDistance_def)
qed

text \<open>
  C4. In a well-formed mesh, \<open>testPointInside\<close> returns true exactly when, for every
  face, \<open>dot(normal, point) - dot(normal, facePoint)\<close> is at most 0; a point on a face
  plane is inside.
\<close>

theorem point_inside_iff:
  assumes wf: "wellFormedMesh (mConvexMesh shape)"
  shows "testPointInside shape pt =
           Inr (\<forall>f<ConvexMesh_getNbFaces (mConvexMesh shape).
                  dot (faceNormalOf (mConvexMesh shape) f) pt
                    - dot (faceNormalOf (mConvexMesh shape) f)
                        (facePointOf (mConvexMesh shape) f) \<le> 0)"
proof -
  have "testPointInside shape pt =
      Inr (\<forall>f\<in>set [0 ..< ConvexMesh_getNbFaces (mConvexMesh shape)].
             dot (faceNormalOf (mConvexMesh shape) f) pt
               - dot (faceNormalOf (mConvexMesh shape) f)
                   (facePointOf (mConvexMesh shape) f) \<le> 0)"
    unfolding testPointInside_def using wf by (rule testPointInsideLoop_wf) simp
  then show ?thesis by (simp add: Ball_def)
qed

text \<open>
  On the unit cube: the centre is inside, \<open>(2, 0, 0)\<close> is outside, and \<open>(1, 0, 0)\<close>, on
  the face \<open>x = 1\<close>, is inside.
\<close>

theorem point_inside_iff_witness:
  "testPointInside \<lparr>mConvexMesh = unitCubeMesh, mScale = \<lparr>x = 1, y = 1, z = 1\<rparr>\<rparr>
     \<lparr>x = 0, y = 0, z = 0\<rparr> = Inr True \<and>
   testPointInside \<lparr>mConvexMesh = unitCubeMesh, mScale = \<lparr>x = 1, y = 1, z = 1\<rparr>\<rparr>
     \<lparr>x = 2, y = 0, z = 0\<rparr> = Inr False \<and>
   testPointInside \<lparr>mConvexMesh = unitCubeMesh, mScale = \<lparr>x = 1, y = 1, z = 1\<rparr>\<rparr>
     \<lparr>x = 1, y = 0, z = 0\<rparr> = Inr True"
proof -
  let ?shape = "\<lparr>mConvexMesh = unitCubeMesh, mScale = \<lparr>x = 1, y = 1, z = 1\<rparr>\<rparr>"
  have wf: "wellFormedMesh (mConvexMesh ?shape)" by (simp add: wellFormed_unitCube)
  have n: "ConvexMesh_getNbFaces (mConvexMesh ?shape) = Suc (Suc (Suc (Suc (Suc (Suc 0)))))"
    by (simp add: cube_eval)
  have sel: "faceNormalOf unitCubeMesh 0 = \<lparr>x = 0, y = - 1, z = 0\<rparr>"
    "faceNormalOf unitCubeMesh (Suc 0) = \<lparr>x = 1, y = 0, z = 0\<rparr>"
    "faceNormalOf unitCubeMesh (Suc (Suc 0)) = \<lparr>x = 0, y = 0, z = 1\<rparr>"
    "faceNormalOf unitCubeMesh (Suc (Suc (Suc 0))) = \<lparr>x = - 1, y = 0, z = 0\<rparr>"
    "faceNormalOf unitCubeMesh (Suc (Suc (Suc (Suc 0)))) = \<lparr>x = 0, y = 1, z = 0\<rparr>"
    "faceNormalOf unitCubeMesh (Suc (Suc (Suc (Suc (Suc 0))))) = \<lparr>x = 0, y = 0, z = - 1\<rparr>"
    "facePointOf unitCubeMesh 0 = \<lparr>x = - 1, y = - 1, z = 1\<rparr>"
    "facePointOf unitCubeMesh (Suc 0) = \<lparr>x = 1, y = - 1, z = 1\<rparr>"
    "facePointOf unitCubeMesh (Suc (Suc 0)) = \<lparr>x = - 1, y = - 1, z = 1\<rparr>"
    "facePointOf unitCubeMesh (Suc (Suc (Suc 0))) = \<lparr>x = - 1, y = - 1, z = 1\<rparr>"
    "facePointOf unitCubeMesh (Suc (Suc (Suc (Suc 0)))) = \<lparr>x = - 1, y = 1, z = 1\<rparr>"
    "facePointOf unitCubeMesh (Suc (Suc (Suc (Suc (Suc 0))))) = \<lparr>x = 1, y = - 1, z = - 1\<rparr>"
    by (simp_all add: faceNormalOf_def facePointOf_def unitCubeMesh_def cubeTopology_def)
  from point_inside_iff [OF wf, of "\<lparr>x = 0, y = 0, z = 0\<rparr>"]
    point_inside_iff [OF wf, of "\<lparr>x = 2, y = 0, z = 0\<rparr>"]
    point_inside_iff [OF wf, of "\<lparr>x = 1, y = 0, z = 0\<rparr>"]
  show ?thesis
    unfolding n by (simp add: All_less_Suc sel dot_def)
qed

section \<open>Local bounds\<close>

lemma mergePoint_sel:
  "x (mMinCoordinates (AABB_mergePoint b v)) = min (x (mMinCoordinates b)) (x v)"
  "y (mMinCoordinates (AABB_mergePoint b v)) = min (y (mMinCoordinates b)) (y v)"
  "z (mMinCoordinates (AABB_mergePoint b v)) = min (z (mMinCoordinates b)) (z v)"
  "x (mMaxCoordinates (AABB_mergePoint b v)) = max (x (mMaxCoordinates b)) (x v)"
  "y (mMaxCoordinates (AABB_mergePoint b v)) = max (y (mMaxCoordinates b)) (y v)"
  "z (mMaxCoordinates (AABB_mergePoint b v)) = max (z (mMaxCoordinates b)) (z v)"
  by (simp_all add: AABB_mergePoint_def Vector3_min_def Vector3_max_def)

lemma Min_insert_min:
  fixes a c :: real
  shows "finite S \<Longrightarrow> Min (insert (min a c) S) = Min (insert a (insert c S))"
  by (cases "S = {}") (simp_all add: min.assoc)

lemma Max_insert_max:
  fixes a c :: real
  shows "finite S \<Longrightarrow> Max (insert (max a c) S) = Max (insert a (insert c S))"
  by (cases "S = {}") (simp_all add: max.assoc)

lemma foldl_mergePoint_min_x:
  "x (mMinCoordinates (foldl AABB_mergePoint b vs)) = Min (insert (x (mMinCoordinates b)) (x ` set vs))"
proof (induction vs arbitrary: b)
  case Nil
  then show ?case by simp
next
  case (Cons v vs)
  have "x (mMinCoordinates (foldl AABB_mergePoint b (v # vs))) =
      Min (insert (min (x (mMinCoordinates b)) (x v)) (x ` set vs))"
    using Cons.IH [of "AABB_mergePoint b v"]
    by (simp add: mergePoint_sel)
  also have "\<dots> = Min (insert (x (mMinCoordinates b)) (insert (x v) (x ` set vs)))"
    by (rule Min_insert_min) simp
  finally show ?case by simp
qed

lemma foldl_mergePoint_max_x:
  "x (mMaxCoordinates (foldl AABB_mergePoint b vs)) = Max (insert (x (mMaxCoordinates b)) (x ` set vs))"
proof (induction vs arbitrary: b)
  case Nil
  then show ?case by simp
next
  case (Cons v vs)
  have "x (mMaxCoordinates (foldl AABB_mergePoint b (v # vs))) =
      Max (insert (max (x (mMaxCoordinates b)) (x v)) (x ` set vs))"
    using Cons.IH [of "AABB_mergePoint b v"]
    by (simp add: mergePoint_sel)
  also have "\<dots> = Max (insert (x (mMaxCoordinates b)) (insert (x v) (x ` set vs)))"
    by (rule Max_insert_max) simp
  finally show ?case by simp
qed

lemma foldl_mergePoint_min_y:
  "y (mMinCoordinates (foldl AABB_mergePoint b vs)) = Min (insert (y (mMinCoordinates b)) (y ` set vs))"
proof (induction vs arbitrary: b)
  case Nil
  then show ?case by simp
next
  case (Cons v vs)
  have "y (mMinCoordinates (foldl AABB_mergePoint b (v # vs))) =
      Min (insert (min (y (mMinCoordinates b)) (y v)) (y ` set vs))"
    using Cons.IH [of "AABB_mergePoint b v"]
    by (simp add: mergePoint_sel)
  also have "\<dots> = Min (insert (y (mMinCoordinates b)) (insert (y v) (y ` set vs)))"
    by (rule Min_insert_min) simp
  finally show ?case by simp
qed

lemma foldl_mergePoint_max_y:
  "y (mMaxCoordinates (foldl AABB_mergePoint b vs)) = Max (insert (y (mMaxCoordinates b)) (y ` set vs))"
proof (induction vs arbitrary: b)
  case Nil
  then show ?case by simp
next
  case (Cons v vs)
  have "y (mMaxCoordinates (foldl AABB_mergePoint b (v # vs))) =
      Max (insert (max (y (mMaxCoordinates b)) (y v)) (y ` set vs))"
    using Cons.IH [of "AABB_mergePoint b v"]
    by (simp add: mergePoint_sel)
  also have "\<dots> = Max (insert (y (mMaxCoordinates b)) (insert (y v) (y ` set vs)))"
    by (rule Max_insert_max) simp
  finally show ?case by simp
qed

lemma foldl_mergePoint_min_z:
  "z (mMinCoordinates (foldl AABB_mergePoint b vs)) = Min (insert (z (mMinCoordinates b)) (z ` set vs))"
proof (induction vs arbitrary: b)
  case Nil
  then show ?case by simp
next
  case (Cons v vs)
  have "z (mMinCoordinates (foldl AABB_mergePoint b (v # vs))) =
      Min (insert (min (z (mMinCoordinates b)) (z v)) (z ` set vs))"
    using Cons.IH [of "AABB_mergePoint b v"]
    by (simp add: mergePoint_sel)
  also have "\<dots> = Min (insert (z (mMinCoordinates b)) (insert (z v) (z ` set vs)))"
    by (rule Min_insert_min) simp
  finally show ?case by simp
qed

lemma foldl_mergePoint_max_z:
  "z (mMaxCoordinates (foldl AABB_mergePoint b vs)) = Max (insert (z (mMaxCoordinates b)) (z ` set vs))"
proof (induction vs arbitrary: b)
  case Nil
  then show ?case by simp
next
  case (Cons v vs)
  have "z (mMaxCoordinates (foldl AABB_mergePoint b (v # vs))) =
      Max (insert (max (z (mMaxCoordinates b)) (z v)) (z ` set vs))"
    using Cons.IH [of "AABB_mergePoint b v"]
    by (simp add: mergePoint_sel)
  also have "\<dots> = Max (insert (z (mMaxCoordinates b)) (insert (z v) (z ` set vs)))"
    by (rule Max_insert_max) simp
  finally show ?case by simp
qed

lemma Min_scaled:
  fixes g :: "'a \<Rightarrow> real"
  assumes "finite A" "A \<noteq> {}" "0 \<le> c"
  shows "Min (g ` A) * c = Min ((\<lambda>v. g v * c) ` A)"
proof -
  have "mono (\<lambda>a. a * c)" using assms(3) by (simp add: mono_def mult_right_mono)
  then have "Min (g ` A) * c = Min ((\<lambda>a. a * c) ` g ` A)"
    using assms(1,2) by (intro mono_Min_commute) auto
  then show ?thesis by (simp add: image_image)
qed

lemma Max_scaled:
  fixes g :: "'a \<Rightarrow> real"
  assumes "finite A" "A \<noteq> {}" "0 \<le> c"
  shows "Max (g ` A) * c = Max ((\<lambda>v. g v * c) ` A)"
proof -
  have "mono (\<lambda>a. a * c)" using assms(3) by (simp add: mono_def mult_right_mono)
  then have "Max (g ` A) * c = Max ((\<lambda>a. a * c) ` g ` A)"
    using assms(1,2) by (intro mono_Max_commute) auto
  then show ?thesis by (simp add: image_image)
qed

text \<open>
  C7. For a mesh with at least one vertex and a scale with no negative component,
  \<open>getLocalBounds\<close> returns the box whose corners are the componentwise minimum and
  maximum over the scaled vertex coordinates.
\<close>

theorem local_bounds:
  assumes ne: "mVerticesCoords (mConvexMesh shape) \<noteq> []"
    and sx: "0 \<le> x (mScale shape)" and sy: "0 \<le> y (mScale shape)" and sz: "0 \<le> z (mScale shape)"
  shows "getLocalBounds shape =
     \<lparr>mMinCoordinates =
        \<lparr>x = Min ((\<lambda>v. x (vec_mul v (mScale shape))) ` set (mVerticesCoords (mConvexMesh shape))),
         y = Min ((\<lambda>v. y (vec_mul v (mScale shape))) ` set (mVerticesCoords (mConvexMesh shape))),
         z = Min ((\<lambda>v. z (vec_mul v (mScale shape))) ` set (mVerticesCoords (mConvexMesh shape)))\<rparr>,
      mMaxCoordinates =
        \<lparr>x = Max ((\<lambda>v. x (vec_mul v (mScale shape))) ` set (mVerticesCoords (mConvexMesh shape))),
         y = Max ((\<lambda>v. y (vec_mul v (mScale shape))) ` set (mVerticesCoords (mConvexMesh shape))),
         z = Max ((\<lambda>v. z (vec_mul v (mScale shape))) ` set (mVerticesCoords (mConvexMesh shape)))\<rparr>\<rparr>"
    (is "_ = ?rhs")
proof -
  let ?vs = "mVerticesCoords (mConvexMesh shape)"
  from ne obtain v vs where vs: "?vs = v # vs" by (cases ?vs) auto
  let ?b = "foldl AABB_mergePoint \<lparr>mMinCoordinates = v, mMaxCoordinates = v\<rparr> vs"
  have b: "ConvexMesh_getBounds (mConvexMesh shape) = ?b"
    by (simp add: ConvexMesh_getBounds_def vs)
  have fin: "finite (set ?vs)" "set ?vs \<noteq> {}" using ne by simp_all
  have mn: "x (mMinCoordinates ?b) = Min (x ` set ?vs)" "y (mMinCoordinates ?b) = Min (y ` set ?vs)"
    "z (mMinCoordinates ?b) = Min (z ` set ?vs)"
    unfolding vs foldl_mergePoint_min_x foldl_mergePoint_min_y foldl_mergePoint_min_z
    by simp_all
  have mx: "x (mMaxCoordinates ?b) = Max (x ` set ?vs)" "y (mMaxCoordinates ?b) = Max (y ` set ?vs)"
    "z (mMaxCoordinates ?b) = Max (z ` set ?vs)"
    unfolding vs foldl_mergePoint_max_x foldl_mergePoint_max_y foldl_mergePoint_max_z
    by simp_all
  have "getLocalBounds shape =
     \<lparr>mMinCoordinates = \<lparr>x = Min (x ` set ?vs) * x (mScale shape),
         y = Min (y ` set ?vs) * y (mScale shape), z = Min (z ` set ?vs) * z (mScale shape)\<rparr>,
      mMaxCoordinates = \<lparr>x = Max (x ` set ?vs) * x (mScale shape),
         y = Max (y ` set ?vs) * y (mScale shape), z = Max (z ` set ?vs) * z (mScale shape)\<rparr>\<rparr>"
    unfolding getLocalBounds_def Let_def b AABB_applyScale_def vec_mul_def
    using mn mx by simp
  also have "\<dots> = ?rhs"
    using fin sx sy sz by (simp add: Min_scaled Max_scaled vec_mul_def)
  finally show ?thesis .
qed

text \<open>
  The unit cube scaled by \<open>(2, 1, 1)\<close>: the first coordinate ranges over \<open>[-2, 2]\<close>, the
  other two over \<open>[-1, 1]\<close>.
\<close>

theorem local_bounds_witness:
  "getLocalBounds \<lparr>mConvexMesh = unitCubeMesh, mScale = \<lparr>x = 2, y = 1, z = 1\<rparr>\<rparr> =
     \<lparr>mMinCoordinates = \<lparr>x = - 2, y = - 1, z = - 1\<rparr>,
      mMaxCoordinates = \<lparr>x = 2, y = 1, z = 1\<rparr>\<rparr>"
proof -
  let ?shape = "\<lparr>mConvexMesh = unitCubeMesh, mScale = \<lparr>x = 2, y = 1, z = 1\<rparr>\<rparr>"
  have ne: "mVerticesCoords (mConvexMesh ?shape) \<noteq> []" by (simp add: unitCubeMesh_def)
  have sx: "0 \<le> x (mScale ?shape)" and sy: "0 \<le> y (mScale ?shape)"
    and sz: "0 \<le> z (mScale ?shape)" by simp_all
  from local_bounds [OF ne sx sy sz] show ?thesis
    by (simp add: unitCubeMesh_def vec_mul_def)
qed

section \<open>Finalization of an open or non-manifold mesh\<close>














text \<open>
  The cube and the prism are closed: built vertex by vertex and face by face, they
  finalize, to the two half-edge structures of the meshes above.
\<close>

lemma finalize_cube:
  "finalize (buildStructure 8
     [[0, 3, 2, 1], [1, 2, 6, 5], [0, 1, 5, 4], [0, 4, 7, 3], [4, 5, 6, 7], [2, 3, 7, 6]]) =
   Inr cubeTopology"
  by (simp add: buildStructure_def emptyStructure_def addVertex_def addFace_def
      finalize_def cubeTopology_def directedEdges_def faceEdges_def
      twinCandidates_def makeEdge_def faceStart_def upt_rec Let_def)

lemma finalize_prism:
  "finalize (buildStructure 6 [[0, 1, 2], [3, 5, 4], [1, 4, 5, 2], [0, 2, 5, 3], [0, 3, 4, 1]]) =
   Inr prismTopology"
  by (simp add: buildStructure_def emptyStructure_def addVertex_def addFace_def
      finalize_def prismTopology_def directedEdges_def faceEdges_def
      twinCandidates_def makeEdge_def faceStart_def upt_rec Let_def)

end
